theory Spec2Isabelle
  imports Complex_Main "HOL-Library.Word" "HOL-Library.Sublist"
begin

chapter \<open>The embedding of the source\<close>

section \<open>Fixed-point decimals (github.com/shopspring/decimal)\<close>

text \<open>
  The calculator and the normalizer compute with \<^verbatim>\<open>decimal.Decimal\<close>, an
  arbitrary-precision value \<open>v * 10 ^ e\<close> held as a big integer and an exponent.
  The library compares decimals by their numeric value, and \<^verbatim>\<open>Mul\<close>,
  \<^verbatim>\<open>Add\<close> and \<^verbatim>\<open>Sub\<close> are exact, so a decimal is modelled by the rational
  number it denotes. Every theorem below quantifies over all rationals, which
  include every decimal. The library's exponent is a 32-bit integer and an
  operation whose exponent leaves that range panics; the model covers the
  numeric results only.

  \<^verbatim>\<open>Round\<close> and \<^verbatim>\<open>Div\<close> round half away from zero: \<^verbatim>\<open>Round(places)\<close>
  to \<open>places\<close> fractional digits, \<^verbatim>\<open>Div\<close> to \<^verbatim>\<open>DivisionPrecision\<close> = 16
  fractional digits (\<^verbatim>\<open>Div\<close> is \<^verbatim>\<open>DivRound(d2, 16)\<close>).
\<close>

type_synonym Decimal = rat

definition round_half_away :: "rat \<Rightarrow> int" where
  "round_half_away x = (if x < 0 then - \<lfloor>- x + 1 / 2\<rfloor> else \<lfloor>x + 1 / 2\<rfloor>)"

definition Decimal_Zero :: Decimal where
  "Decimal_Zero = 0"

definition Decimal_NewFromInt :: "int \<Rightarrow> Decimal" where
  "Decimal_NewFromInt n = of_int n"

definition Decimal_IsZero :: "Decimal \<Rightarrow> bool" where
  "Decimal_IsZero d = (d = 0)"

definition Decimal_Mul :: "Decimal \<Rightarrow> Decimal \<Rightarrow> Decimal" where
  "Decimal_Mul d d2 = d * d2"

definition Decimal_Add :: "Decimal \<Rightarrow> Decimal \<Rightarrow> Decimal" where
  "Decimal_Add d d2 = d + d2"

definition Decimal_Sub :: "Decimal \<Rightarrow> Decimal \<Rightarrow> Decimal" where
  "Decimal_Sub d d2 = d - d2"

definition Decimal_Round :: "Decimal \<Rightarrow> nat \<Rightarrow> Decimal" where
  "Decimal_Round d places = of_int (round_half_away (d * 10 ^ places)) / 10 ^ places"

definition DivisionPrecision :: nat where
  "DivisionPrecision = 16"

text \<open>
  \<^verbatim>\<open>DivRound\<close> panics on a zero divisor. The calculator divides by the literal
  100 only, so the panic is unreachable from the code modelled here; the value
  of the definition at \<open>d2 = 0\<close> is not used.
\<close>

definition Decimal_DivRound :: "Decimal \<Rightarrow> Decimal \<Rightarrow> nat \<Rightarrow> Decimal" where
  "Decimal_DivRound d d2 precision =
     of_int (round_half_away (d / d2 * 10 ^ precision)) / 10 ^ precision"

definition Decimal_Div :: "Decimal \<Rightarrow> Decimal \<Rightarrow> Decimal" where
  "Decimal_Div d d2 = Decimal_DivRound d d2 DivisionPrecision"

section \<open>The model response (internal/llm/extractor.go)\<close>

text \<open>
  The records into which \<^verbatim>\<open>json.Unmarshal\<close> decodes the model's JSON object. A
  \<^verbatim>\<open>json.Number\<close> is the literal text of a number, a Go string. These records
  are declared first, so that an unqualified field name below is a field of the
  canonical entity.
\<close>

type_synonym json_Number = string

record LLMParty =
  Name :: string
  TaxID :: string
  Address :: string
  Phone :: string
  Email :: string
  BankAccount :: string
  BankName :: string

record LLMLineItem =
  Number :: int
  Code :: string
  Name :: string
  Description :: string
  Unit :: string
  Quantity :: json_Number
  UnitPrice :: json_Number
  DiscountPercent :: json_Number
  DiscountAmount :: json_Number
  Amount :: json_Number
  VATRate :: json_Number
  VATAmount :: json_Number
  Total :: json_Number

record LLMResponse =
  InvoiceNumber :: string
  Series :: string
  Date :: string
  Type :: string
  Seller :: LLMParty
  Buyer :: LLMParty
  Items :: "LLMLineItem list"
  Subtotal :: json_Number
  TotalDiscount :: json_Number
  TotalVAT :: json_Number
  TotalAmount :: json_Number
  Currency :: string
  PaymentMethod :: string
  Notes :: string
  DocumentType :: string
  ReceiptNumber :: string
  Cashier :: string
  TerminalID :: string
  Time :: string
  AmountTendered :: json_Number
  Change :: json_Number

section \<open>The canonical entity (internal/model/invoice.go)\<close>

text \<open>
  \<^verbatim>\<open>Provider\<close>, \<^verbatim>\<open>InvoiceType\<close> and \<^verbatim>\<open>DocumentType\<close> are Go string types with
  named constants; \<^verbatim>\<open>VATRate\<close> is a Go \<^verbatim>\<open>int\<close> (64 bits). \<^verbatim>\<open>time.Time\<close> is
  modelled by an instant counted from its zero value.
\<close>

type_synonym Provider = string

type_synonym InvoiceType = string

type_synonym DocumentType = string

type_synonym VATRate = "64 word"

type_synonym Time = int

definition ProviderUnknown :: Provider where
  "ProviderUnknown = ''UNKNOWN''"

definition InvoiceTypeNormal :: InvoiceType where
  "InvoiceTypeNormal = ''Normal''"

definition InvoiceTypeReplacement :: InvoiceType where
  "InvoiceTypeReplacement = ''Replacement''"

definition InvoiceTypeAdjustment :: InvoiceType where
  "InvoiceTypeAdjustment = ''Adjustment''"

definition DocumentTypeInvoice :: DocumentType where
  "DocumentTypeInvoice = ''invoice''"

definition DocumentTypeReceipt :: DocumentType where
  "DocumentTypeReceipt = ''receipt''"

definition zeroTime :: Time where
  "zeroTime = 0"

record Signature =
  Value :: string
  Date :: Time
  SignerName :: string
  SignerPosition :: string
  CertSerial :: string

record Party =
  Name :: string
  TaxID :: string
  Address :: string
  Phone :: string
  Email :: string
  BankAccount :: string
  BankName :: string

record LineItem =
  Number :: int
  Code :: string
  Name :: string
  Description :: string
  Unit :: string
  Quantity :: Decimal
  UnitPrice :: Decimal
  Discount :: Decimal
  VATRate :: VATRate
  Amount :: Decimal
  DiscountAmt :: Decimal
  VATAmount :: Decimal
  Total :: Decimal

record Invoice =
  ID :: string
  Number :: string
  Series :: string
  Date :: Time
  Type :: InvoiceType
  Provider :: Provider
  Seller :: Party
  Buyer :: Party
  Items :: "LineItem list"
  SubtotalAmount :: Decimal
  TaxAmount :: Decimal
  TotalAmount :: Decimal
  Currency :: string
  ExchangeRate :: Decimal
  Remarks :: string
  PaymentTerms :: string
  DocumentType :: DocumentType
  Cashier :: string
  TerminalID :: string
  PaymentMethod :: string
  ReceiptNumber :: string
  ReceiptTime :: string
  AmountTendered :: Decimal
  Change :: Decimal
  Signature :: "Signature option"
  RawXML :: string
  SourceFile :: string

section \<open>The calculator\<close>

text \<open>
  \<^verbatim>\<open>LineItem.Calculate\<close> mutates the item in place; the model returns the
  updated item. The assignments are kept in the order of the source, and the
  discount amount is assigned only under the guard \<^verbatim>\<open>!li.Discount.IsZero()\<close>.
\<close>

definition Calculate :: "LineItem \<Rightarrow> LineItem" where
  "Calculate li =
     (let li1 = li\<lparr>Amount := Decimal_Mul (Quantity li) (UnitPrice li)\<rparr>;
          li2 = (if \<not> Decimal_IsZero (Discount li1)
                 then li1\<lparr>DiscountAmt :=
                        Decimal_Round
                          (Decimal_Div (Decimal_Mul (Amount li1) (Discount li1))
                             (Decimal_NewFromInt 100)) 0\<rparr>
                 else li1);
          taxableAmount = Decimal_Sub (Amount li2) (DiscountAmt li2);
          li3 = li2\<lparr>VATAmount :=
                  Decimal_Round
                    (Decimal_Div
                       (Decimal_Mul taxableAmount (Decimal_NewFromInt (sint (VATRate li2))))
                       (Decimal_NewFromInt 100)) 0\<rparr>
      in li3\<lparr>Total := Decimal_Round (Decimal_Add taxableAmount (VATAmount li3)) 0\<rparr>)"

text \<open>
  The loop of \<^verbatim>\<open>Invoice.CalculateTotals\<close>: each item is recalculated in place and
  added to the two running sums, which are local variables of the function.
\<close>

fun CalculateTotals_loop ::
  "LineItem list \<Rightarrow> Decimal \<Rightarrow> Decimal \<Rightarrow> LineItem list \<times> Decimal \<times> Decimal" where
  "CalculateTotals_loop [] subtotal tax = ([], subtotal, tax)"
| "CalculateTotals_loop (item # rest) subtotal tax =
     (let item' = Calculate item;
          subtotal' = Decimal_Add subtotal (Decimal_Sub (Amount item') (DiscountAmt item'));
          tax' = Decimal_Add tax (VATAmount item')
      in case CalculateTotals_loop rest subtotal' tax' of
           (rest', s, t) \<Rightarrow> (item' # rest', s, t))"

definition CalculateTotals :: "Invoice \<Rightarrow> Invoice" where
  "CalculateTotals invoice =
     (case CalculateTotals_loop (Items invoice) Decimal_Zero Decimal_Zero of
        (items', subtotal, tax) \<Rightarrow>
          invoice\<lparr>Items := items',
              SubtotalAmount := Decimal_Round subtotal 0,
              TaxAmount := Decimal_Round tax 0,
              TotalAmount := Decimal_Round (Decimal_Add subtotal tax) 0\<rparr>)"

text \<open>Go zero values, from which the concrete inputs below are built.\<close>

definition Party_zero :: Party where
  "Party_zero = \<lparr>Party.Name = [], TaxID = [], Address = [], Phone = [], Email = [],
     BankAccount = [], BankName = []\<rparr>"

definition LineItem_zero :: LineItem where
  "LineItem_zero = \<lparr>LineItem.Number = 0, Code = [], Name = [], Description = [], Unit = [],
     Quantity = 0, UnitPrice = 0, Discount = 0, VATRate = 0,
     Amount = 0, DiscountAmt = 0, VATAmount = 0, Total = 0\<rparr>"

definition Invoice_zero :: Invoice where
  "Invoice_zero = \<lparr>ID = [], Number = [], Series = [], Date = zeroTime, Type = [],
     Provider = [], Seller = Party_zero, Buyer = Party_zero, Items = [],
     SubtotalAmount = 0, TaxAmount = 0, TotalAmount = 0, Currency = [], ExchangeRate = 0,
     Remarks = [], PaymentTerms = [], DocumentType = [], Cashier = [], TerminalID = [],
     PaymentMethod = [], ReceiptNumber = [], ReceiptTime = [], AmountTendered = 0,
     Change = 0, Signature = None, RawXML = [], SourceFile = []\<rparr>"

subsection \<open>Concrete line items and invoices, for the instances below\<close>

definition stale_discount_item :: LineItem where
  "stale_discount_item =
     LineItem_zero\<lparr>LineItem.Number := 1, Name := ''item'', Unit := ''pc'',
       Quantity := 1, UnitPrice := 100, Discount := 0, VATRate := 10, DiscountAmt := 7\<rparr>"

definition credit_line_invoice :: Invoice where
  "credit_line_invoice =
     Invoice_zero\<lparr>Items :=
       [LineItem_zero\<lparr>LineItem.Number := 1, Quantity := - 1, UnitPrice := 21 / 2\<rparr>,
        LineItem_zero\<lparr>LineItem.Number := 2, Quantity := 1, UnitPrice := 10, VATRate := 10\<rparr>]\<rparr>"

definition half_unit_invoice :: Invoice where
  "half_unit_invoice =
     Invoice_zero\<lparr>Items :=
       [LineItem_zero\<lparr>LineItem.Number := 1, Quantity := 3, UnitPrice := 5 / 2, VATRate := 10\<rparr>]\<rparr>"

section \<open>The response normalizer (internal/llm/extractor.go)\<close>

subsection \<open>Parsing numeric literals\<close>

text \<open>
  \<^verbatim>\<open>strconv.ParseInt(s, 10, n)\<close> and \<^verbatim>\<open>big.Int.SetString(s, 10)\<close> accept an
  optional sign followed by at least one decimal digit. A Go string is a
  sequence of bytes, a \<^typ>\<open>string\<close> here.
\<close>

definition digitVal :: "char \<Rightarrow> nat option" where
  "digitVal c =
     (if 48 \<le> (of_char c :: nat) \<and> (of_char c :: nat) \<le> 57
      then Some (of_char c - 48) else None)"

definition isDigitChar :: "char \<Rightarrow> bool" where
  "isDigitChar c = (digitVal c \<noteq> None)"

fun parseDigits :: "string \<Rightarrow> nat \<Rightarrow> nat option" where
  "parseDigits [] acc = Some acc"
| "parseDigits (c # cs) acc =
     (case digitVal c of None \<Rightarrow> None | Some d \<Rightarrow> parseDigits cs (10 * acc + d))"

definition strconv_ParseInt :: "string \<Rightarrow> int option" where
  "strconv_ParseInt s =
     (case s of
        [] \<Rightarrow> None
      | c # cs \<Rightarrow>
          if c = CHR ''-'' then
            (if cs = [] then None else map_option (\<lambda>n. - int n) (parseDigits cs 0))
          else if c = CHR ''+'' then
            (if cs = [] then None else map_option int (parseDigits cs 0))
          else map_option int (parseDigits s 0))"

definition in_int32 :: "int \<Rightarrow> bool" where
  "in_int32 n = (- (2 ^ 31) \<le> n \<and> n < 2 ^ 31)"

text \<open>The text before and after the first character that satisfies \<open>P\<close>.\<close>

fun split_first :: "(char \<Rightarrow> bool) \<Rightarrow> string \<Rightarrow> (string \<times> string) option" where
  "split_first P [] = None"
| "split_first P (c # cs) =
     (if P c then Some ([], cs)
      else map_option (\<lambda>(before, after). (c # before, after)) (split_first P cs))"

text \<open>
  \<^verbatim>\<open>decimal.NewFromString\<close>: an optional exponent after the first \<^verbatim>\<open>E\<close> or
  \<^verbatim>\<open>e\<close>, parsed as a 32-bit integer; at most one decimal point; the remaining
  characters, the point removed, parsed as an integer; the exponent, lowered by
  the number of digits after the point, must fit 32 bits. \<open>None\<close> is an error.
\<close>

definition Decimal_NewFromString :: "string \<Rightarrow> Decimal option" where
  "Decimal_NewFromString s =
     (case (case split_first (\<lambda>c. c = CHR ''E'' \<or> c = CHR ''e'') s of
              None \<Rightarrow> Some (s, 0)
            | Some (mantissa, e) \<Rightarrow>
                (case strconv_ParseInt e of
                   None \<Rightarrow> None
                 | Some n \<Rightarrow> if in_int32 n then Some (mantissa, n) else None)) of
        None \<Rightarrow> None
      | Some (value, exp0) \<Rightarrow>
          if 1 < count_list value (CHR ''.'') then None
          else
            (case (case split_first (\<lambda>c. c = CHR ''.'') value of
                     None \<Rightarrow> (value, exp0)
                   | Some (ip, fp) \<Rightarrow> (ip @ fp, exp0 - int (length fp))) of
               (intString, expo) \<Rightarrow>
                 (case strconv_ParseInt intString of
                    None \<Rightarrow> None
                  | Some v \<Rightarrow>
                      if in_int32 expo then Some (of_int v * 10 powi expo) else None)))"

text \<open>\<^verbatim>\<open>Decimal.IntPart\<close>: the integer part, truncated toward zero.\<close>

definition Decimal_IntPart :: "Decimal \<Rightarrow> int" where
  "Decimal_IntPart d = (if d < 0 then - \<lfloor>- d\<rfloor> else \<lfloor>d\<rfloor>)"

definition parseDecimal :: "json_Number \<Rightarrow> Decimal" where
  "parseDecimal n =
     (if n = [] then Decimal_Zero
      else
        (let s = filter (\<lambda>c. c \<noteq> CHR ''.'') n;
             s = map (\<lambda>c. if c = CHR '','' then CHR ''.'' else c) s
         in case Decimal_NewFromString s of
              None \<Rightarrow> Decimal_Zero
            | Some d \<Rightarrow> d))"

subsection \<open>What the normalizer takes from outside this repository's sources\<close>

text \<open>
  The standard-library functions \<^verbatim>\<open>time.Parse\<close>, \<^verbatim>\<open>strings.TrimSpace\<close> and
  \<^verbatim>\<open>strings.ToLower\<close>, the JSON isolator \<^verbatim>\<open>ExtractJSON\<close> and the prompt texts
  are parameters: every theorem holds whatever they compute. So is
  \<open>json_decode\<close>, what \<^verbatim>\<open>json.Unmarshal\<close> makes of the structure of a JSON text
  decoded into an \<^verbatim>\<open>LLMResponse\<close>: the record with the text of each
  \<^verbatim>\<open>json.Number\<close> literal in its field, or an error. \<^verbatim>\<open>fmt.Sprintf\<close> of a
  prompt with one \<^verbatim>\<open>%s\<close> is a function of the inserted text.
\<close>

type_synonym error = string

record Env =
  time_Parse :: "string \<Rightarrow> string \<Rightarrow> Time option"
  strings_TrimSpace :: "string \<Rightarrow> string"
  strings_ToLower :: "string \<Rightarrow> string"
  json_decode :: "string \<Rightarrow> error + LLMResponse"
  ExtractJSON :: "string \<Rightarrow> string"
  SystemPromptInvoiceExtractor :: string
  UserPromptTextExtraction :: "string \<Rightarrow> string"
  UserPromptImageExtraction :: string
  UserPromptOCRCorrection :: "string \<Rightarrow> string"

subsection \<open>Decoding the model's JSON (encoding/json)\<close>

text \<open>
  \<^verbatim>\<open>isValidNumber\<close> of \<^verbatim>\<open>encoding/json\<close>, the grammar of a JSON number: an
  optional \<^verbatim>\<open>-\<close>; then \<^verbatim>\<open>0\<close>, or a digit from 1 to 9 and any digits; then
  optionally \<^verbatim>\<open>.\<close> and at least one digit; then optionally \<^verbatim>\<open>e\<close> or \<^verbatim>\<open>E\<close>, an
  optional sign and digits; and nothing after that. The three definitions
  before it are its three steps, each returning the rest of the text.
\<close>

definition skipIntegerPart :: "string \<Rightarrow> string option" where
  "skipIntegerPart s =
     (case s of
        [] \<Rightarrow> None
      | c # cs \<Rightarrow>
          if c = CHR ''0'' then Some cs
          else if isDigitChar c then Some (dropWhile isDigitChar cs)
          else None)"

definition skipFraction :: "string \<Rightarrow> string" where
  "skipFraction s =
     (if 2 \<le> length s \<and> s ! 0 = CHR ''.'' \<and> isDigitChar (s ! 1)
      then dropWhile isDigitChar (drop 2 s) else s)"

definition skipExponent :: "string \<Rightarrow> string option" where
  "skipExponent s =
     (if 2 \<le> length s \<and> (s ! 0 = CHR ''e'' \<or> s ! 0 = CHR ''E'') then
        (let s = tl s in
         if s ! 0 = CHR ''+'' \<or> s ! 0 = CHR ''-'' then
           (let s = tl s in if s = [] then None else Some (dropWhile isDigitChar s))
         else Some (dropWhile isDigitChar s))
      else Some s)"

definition isValidNumber :: "string \<Rightarrow> bool" where
  "isValidNumber s =
     (if s = [] then False
      else
        (let s = (if s ! 0 = CHR ''-'' then tl s else s) in
         if s = [] then False
         else
           (case skipIntegerPart s of
              None \<Rightarrow> False
            | Some s \<Rightarrow>
                (case skipExponent (skipFraction s) of
                   None \<Rightarrow> False
                 | Some s \<Rightarrow> s = []))))"

text \<open>
  \<^verbatim>\<open>json.Unmarshal\<close> into an \<^verbatim>\<open>LLMResponse\<close>. A \<^verbatim>\<open>json.Number\<close> field keeps
  the text of its literal, which may be a JSON number or a JSON string, and the
  decoder refuses a literal that is not a valid JSON number; a field that is
  absent or \<^verbatim>\<open>null\<close> stays empty. The decoder's message for a refused literal
  also quotes the literal; the model keeps the constant part.
\<close>

definition json_Number_ok :: "json_Number \<Rightarrow> bool" where
  "json_Number_ok n = (n = [] \<or> isValidNumber n)"

definition numbers_of_item :: "LLMLineItem \<Rightarrow> json_Number list" where
  "numbers_of_item item =
     [LLMLineItem.Quantity item, LLMLineItem.UnitPrice item, DiscountPercent item,
      DiscountAmount item, LLMLineItem.Amount item, LLMLineItem.VATRate item,
      LLMLineItem.VATAmount item, LLMLineItem.Total item]"

definition numbers_of_response :: "LLMResponse \<Rightarrow> json_Number list" where
  "numbers_of_response resp =
     [Subtotal resp, TotalDiscount resp, TotalVAT resp, LLMResponse.TotalAmount resp,
      LLMResponse.AmountTendered resp, LLMResponse.Change resp]
     @ concat (map numbers_of_item (LLMResponse.Items resp))"

definition json_Unmarshal :: "Env \<Rightarrow> string \<Rightarrow> error + LLMResponse" where
  "json_Unmarshal env s =
     (case json_decode env s of
        Inl err \<Rightarrow> Inl err
      | Inr resp \<Rightarrow>
          if list_all json_Number_ok (numbers_of_response resp) then Inr resp
          else Inl ''json: invalid number literal, trying to unmarshal into Number'')"

subsection \<open>Field parsers\<close>

definition parseDate_formats :: "string list" where
  "parseDate_formats =
     [''2006-01-02'', ''02/01/2006'', ''2/1/2006'', ''02-01-2006'',
      ''2006-01-02T15:04:05Z07:00'']"

fun parseDate_loop :: "Env \<Rightarrow> string list \<Rightarrow> string \<Rightarrow> error + Time" where
  "parseDate_loop env [] s = Inl (''cannot parse date: '' @ s)"
| "parseDate_loop env (format # formats) s =
     (case time_Parse env format s of
        Some t \<Rightarrow> Inr t
      | None \<Rightarrow> parseDate_loop env formats s)"

definition parseDate :: "Env \<Rightarrow> string \<Rightarrow> error + Time" where
  "parseDate env s = parseDate_loop env parseDate_formats (strings_TrimSpace env s)"

definition parseInvoiceType :: "Env \<Rightarrow> string \<Rightarrow> InvoiceType" where
  "parseInvoiceType env s =
     (let l = strings_ToLower env s in
      if l = ''replacement'' then InvoiceTypeReplacement
      else if l = ''adjustment'' then InvoiceTypeAdjustment
      else InvoiceTypeNormal)"

definition parseDocumentType :: "Env \<Rightarrow> string \<Rightarrow> DocumentType" where
  "parseDocumentType env s =
     (if strings_ToLower env s = ''receipt'' then DocumentTypeReceipt
      else DocumentTypeInvoice)"

subsection \<open>convertToInvoice\<close>

text \<open>
  The body of the loop over \<^verbatim>\<open>resp.Items\<close>: the line item is built from the
  response's item, each numeric field through \<^verbatim>\<open>parseDecimal\<close>, the derived
  fields included. \<^verbatim>\<open>model.VATRate(rate.IntPart())\<close> keeps the low 64 bits.
\<close>

definition convertToInvoice_item :: "LLMLineItem \<Rightarrow> LineItem" where
  "convertToInvoice_item item =
     (let lineItem = LineItem_zero\<lparr>
            LineItem.Number := LLMLineItem.Number item,
            LineItem.Code := LLMLineItem.Code item,
            LineItem.Name := LLMLineItem.Name item,
            LineItem.Description := LLMLineItem.Description item,
            LineItem.Unit := LLMLineItem.Unit item\<rparr>;
          lineItem = lineItem\<lparr>LineItem.Quantity := parseDecimal (LLMLineItem.Quantity item)\<rparr>;
          lineItem = lineItem\<lparr>LineItem.UnitPrice := parseDecimal (LLMLineItem.UnitPrice item)\<rparr>;
          lineItem = lineItem\<lparr>Discount := parseDecimal (DiscountPercent item)\<rparr>;
          lineItem = lineItem\<lparr>DiscountAmt := parseDecimal (DiscountAmount item)\<rparr>;
          lineItem = lineItem\<lparr>LineItem.Amount := parseDecimal (LLMLineItem.Amount item)\<rparr>;
          lineItem = lineItem\<lparr>LineItem.VATAmount := parseDecimal (LLMLineItem.VATAmount item)\<rparr>;
          lineItem = lineItem\<lparr>LineItem.Total := parseDecimal (LLMLineItem.Total item)\<rparr>;
          rate = parseDecimal (LLMLineItem.VATRate item)
      in if \<not> Decimal_IsZero rate
         then lineItem\<lparr>LineItem.VATRate := word_of_int (Decimal_IntPart rate)\<rparr>
         else lineItem)"

fun convertToInvoice_items :: "LLMLineItem list \<Rightarrow> LineItem list \<Rightarrow> LineItem list" where
  "convertToInvoice_items [] items = items"
| "convertToInvoice_items (item # rest) items =
     convertToInvoice_items rest (items @ [convertToInvoice_item item])"

text \<open>
  \<^verbatim>\<open>convertToInvoice\<close> returns a fresh invoice and always a nil error, so the
  model returns the invoice. The buyer is built from five fields, the seller
  from seven, as in the source.
\<close>

definition convertToInvoice :: "Env \<Rightarrow> LLMResponse \<Rightarrow> Invoice" where
  "convertToInvoice env resp =
     (let docNumber = InvoiceNumber resp;
          docNumber = (if docNumber = [] then LLMResponse.ReceiptNumber resp else docNumber);
          invoice = Invoice_zero\<lparr>
            Invoice.Number := docNumber,
            Invoice.Series := LLMResponse.Series resp,
            Invoice.Currency := LLMResponse.Currency resp,
            Remarks := Notes resp,
            Provider := ProviderUnknown,
            Invoice.DocumentType := parseDocumentType env (LLMResponse.DocumentType resp),
            Invoice.Cashier := LLMResponse.Cashier resp,
            Invoice.TerminalID := LLMResponse.TerminalID resp,
            Invoice.PaymentMethod := LLMResponse.PaymentMethod resp,
            Invoice.ReceiptNumber := LLMResponse.ReceiptNumber resp,
            ReceiptTime := LLMResponse.Time resp,
            Invoice.AmountTendered := parseDecimal (LLMResponse.AmountTendered resp),
            Invoice.Change := parseDecimal (LLMResponse.Change resp)\<rparr>;
          invoice =
            (if LLMResponse.Date resp \<noteq> [] then
               (case parseDate env (LLMResponse.Date resp) of
                  Inr t \<Rightarrow> invoice\<lparr>Invoice.Date := t\<rparr>
                | Inl err \<Rightarrow> invoice)
             else invoice);
          invoice = invoice\<lparr>Invoice.Type := parseInvoiceType env (LLMResponse.Type resp)\<rparr>;
          invoice = invoice\<lparr>Invoice.Seller := \<lparr>
            Party.Name = LLMParty.Name (LLMResponse.Seller resp),
            Party.TaxID = LLMParty.TaxID (LLMResponse.Seller resp),
            Party.Address = LLMParty.Address (LLMResponse.Seller resp),
            Party.Phone = LLMParty.Phone (LLMResponse.Seller resp),
            Party.Email = LLMParty.Email (LLMResponse.Seller resp),
            Party.BankAccount = LLMParty.BankAccount (LLMResponse.Seller resp),
            Party.BankName = LLMParty.BankName (LLMResponse.Seller resp)\<rparr>\<rparr>;
          invoice = invoice\<lparr>Invoice.Buyer := Party_zero\<lparr>
            Party.Name := LLMParty.Name (LLMResponse.Buyer resp),
            Party.TaxID := LLMParty.TaxID (LLMResponse.Buyer resp),
            Party.Address := LLMParty.Address (LLMResponse.Buyer resp),
            Party.Phone := LLMParty.Phone (LLMResponse.Buyer resp),
            Party.Email := LLMParty.Email (LLMResponse.Buyer resp)\<rparr>\<rparr>;
          invoice = invoice\<lparr>Invoice.Items :=
            convertToInvoice_items (LLMResponse.Items resp) (Invoice.Items invoice)\<rparr>;
          invoice = invoice\<lparr>SubtotalAmount := parseDecimal (Subtotal resp)\<rparr>;
          invoice = invoice\<lparr>TaxAmount := parseDecimal (TotalVAT resp)\<rparr>;
          invoice = invoice\<lparr>Invoice.TotalAmount := parseDecimal (LLMResponse.TotalAmount resp)\<rparr>
      in if Invoice.Currency invoice = [] then invoice\<lparr>Invoice.Currency := ''VND''\<rparr>
         else invoice)"

definition parseResponse :: "Env \<Rightarrow> string \<Rightarrow> error + Invoice" where
  "parseResponse env response =
     (let jsonStr = ExtractJSON env response in
      case json_Unmarshal env jsonStr of
        Inl err \<Rightarrow> Inl (''failed to parse LLM response: '' @ err)
      | Inr llmResp \<Rightarrow> Inr (convertToInvoice env llmResp))"

subsection \<open>The extractor's model calls\<close>

text \<open>
  \<^verbatim>\<open>llm.Client\<close> is the network client, a collaborator: \<^verbatim>\<open>ChatText\<close> takes
  the model id, the system prompt and the user prompt, \<^verbatim>\<open>ChatWithImage\<close> also
  the image bytes and their MIME type. Each returns the raw response or an
  error. A Go error is modelled by its message.
\<close>

record Extractor =
  client_ChatText :: "string \<Rightarrow> string \<Rightarrow> string \<Rightarrow> error + string"
  client_ChatWithImage ::
    "string \<Rightarrow> string \<Rightarrow> string \<Rightarrow> string \<Rightarrow> string \<Rightarrow> error + string"
  textModel :: string
  visionModel :: string

definition ExtractFromImage ::
  "Env \<Rightarrow> Extractor \<Rightarrow> string \<Rightarrow> string \<Rightarrow> error + Invoice" where
  "ExtractFromImage env e imageData mimeType =
     (case client_ChatWithImage e (visionModel e) (SystemPromptInvoiceExtractor env)
             (UserPromptImageExtraction env) imageData mimeType of
        Inl err \<Rightarrow> Inl (''LLM request failed: '' @ err)
      | Inr response \<Rightarrow> parseResponse env response)"

definition ExtractFromOCRText :: "Env \<Rightarrow> Extractor \<Rightarrow> string \<Rightarrow> error + Invoice" where
  "ExtractFromOCRText env e ocrText =
     (let prompt = UserPromptOCRCorrection env ocrText in
      case client_ChatText e (textModel e) (SystemPromptInvoiceExtractor env) prompt of
        Inl err \<Rightarrow> Inl (''LLM request failed: '' @ err)
      | Inr response \<Rightarrow> parseResponse env response)"

section \<open>The orchestrator (internal/processor/pipeline.go)\<close>

text \<open>
  \<^verbatim>\<open>ExtractionMethod\<close> is a Go string type. \<^verbatim>\<open>Confidence\<close> is a
  \<^verbatim>\<open>float64\<close> that only ever holds one of the literals 1.0, 0.85, 0.80 or the
  zero value; no arithmetic is done on it, so it is modelled by the rational
  the literal denotes. \<^verbatim>\<open>Invoice\<close> and \<^verbatim>\<open>Error\<close> are nil (\<open>None\<close>) or set.
\<close>

type_synonym ExtractionMethod = string

definition MethodXML :: ExtractionMethod where
  "MethodXML = ''xml''"

definition MethodLLMText :: ExtractionMethod where
  "MethodLLMText = ''llm_text''"

definition MethodLLMVision :: ExtractionMethod where
  "MethodLLMVision = ''llm_vision''"

record Result =
  Invoice :: "Invoice option"
  Method :: ExtractionMethod
  Confidence :: rat
  Warnings :: "string list"
  Error :: "error option"

definition Result_zero :: Result where
  "Result_zero = \<lparr>Invoice = None, Method = [], Confidence = 0, Warnings = [], Error = None\<rparr>"

text \<open>
  The PDF miner's two operations touch the file system and external tools and
  are parameters of the pipeline. \<^verbatim>\<open>ExtractBytes\<close> returns the mined
  \<^verbatim>\<open>RawText\<close> or an error. \<^verbatim>\<open>ConvertToImages\<close> returns an error when no image
  was produced, so its successful result has a first image. \<^verbatim>\<open>llmExtractor\<close>
  is a pointer that may be nil.
\<close>

record Pipeline =
  xmlRegistry_Parse :: "string \<Rightarrow> error + Invoice"
  pdfExtractor_ExtractBytes :: "string \<Rightarrow> error + string"
  pdfExtractor_ConvertToImages :: "string \<Rightarrow> error + string \<times> string list"
  llmExtractor :: "Extractor option"

text \<open>
  The calls a stage makes to its collaborators are recorded, in order, next to
  the result, so that a theorem can say which collaborators were invoked.
\<close>

datatype Call =
  Call_ExtractBytes | Call_ChatText | Call_ConvertToImages | Call_ChatWithImage

text \<open>\<^verbatim>\<open>%v\<close> of an error prints its message, and \<^verbatim>\<open><nil>\<close> for a nil error.\<close>

definition fmt_v :: "error option \<Rightarrow> string" where
  "fmt_v err = (case err of None \<Rightarrow> ''<nil>'' | Some msg \<Rightarrow> msg)"

definition tryLLMTextExtraction ::
  "Env \<Rightarrow> Pipeline \<Rightarrow> Extractor \<Rightarrow> string \<Rightarrow> Result \<times> Call list" where
  "tryLLMTextExtraction env p e pdfData =
     (case pdfExtractor_ExtractBytes p pdfData of
        Inl err \<Rightarrow>
          (Result_zero\<lparr>Error := Some err,
                        Warnings := [''PDF text extraction failed: '' @ err]\<rparr>,
           [Call_ExtractBytes])
      | Inr rawText \<Rightarrow>
          if rawText = [] then
            (Result_zero\<lparr>Error := Some ''no text extracted from PDF'',
                          Warnings := [''PDF contains no extractable text'']\<rparr>,
             [Call_ExtractBytes])
          else
            (case ExtractFromOCRText env e rawText of
               Inl err \<Rightarrow>
                 (Result_zero\<lparr>Error := Some err,
                               Warnings := [''LLM text extraction failed: '' @ err]\<rparr>,
                  [Call_ExtractBytes, Call_ChatText])
             | Inr invoice \<Rightarrow>
                 (Result_zero\<lparr>Invoice := Some invoice, Method := MethodLLMText,
                               Confidence := 85 / 100\<rparr>,
                  [Call_ExtractBytes, Call_ChatText])))"

definition detectImageMimeType :: "string \<Rightarrow> string" where
  "detectImageMimeType data =
     (if 3 \<le> length data \<and> data ! 0 = CHR 0xFF \<and> data ! 1 = CHR 0xD8 \<and> data ! 2 = CHR 0xFF
      then ''image/jpeg''
      else if 4 \<le> length data \<and> data ! 0 = CHR 0x89 \<and> data ! 1 = CHR 0x50
              \<and> data ! 2 = CHR 0x4E \<and> data ! 3 = CHR 0x47
      then ''image/png''
      else ''image/jpeg'')"

definition tryLLMVisionExtraction ::
  "Env \<Rightarrow> Pipeline \<Rightarrow> Extractor \<Rightarrow> string \<Rightarrow> string \<Rightarrow> Result \<times> Call list" where
  "tryLLMVisionExtraction env p e data mimeType =
     (let finish = (\<lambda>imageData imageMimeType calls.
            case ExtractFromImage env e imageData imageMimeType of
              Inl err \<Rightarrow>
                (Result_zero\<lparr>Error := Some err,
                              Warnings := [''LLM vision extraction failed: '' @ err]\<rparr>,
                 calls @ [Call_ChatWithImage])
            | Inr invoice \<Rightarrow>
                (Result_zero\<lparr>Invoice := Some invoice, Method := MethodLLMVision,
                              Confidence := 80 / 100\<rparr>,
                 calls @ [Call_ChatWithImage]))
      in if mimeType = ''application/pdf'' \<or> (4 \<le> length data \<and> take 4 data = ''%PDF'') then
           (case pdfExtractor_ConvertToImages p data of
              Inl err \<Rightarrow>
                (Result_zero\<lparr>Error := Some (''failed to convert PDF to images: '' @ err),
                              Warnings := [''PDF to image conversion failed: '' @ err]\<rparr>,
                 [Call_ConvertToImages])
            | Inr (first_image, more_images) \<Rightarrow>
                finish first_image (detectImageMimeType first_image) [Call_ConvertToImages])
         else finish data mimeType [])"

text \<open>
  \<^verbatim>\<open>ProcessPDF\<close>. The reader \<open>r\<close> is nil (\<open>None\<close>) or yields the result of
  \<^verbatim>\<open>io.ReadAll\<close>. The branches after the two stages are those of the source, in
  its order.
\<close>

definition ProcessPDF ::
  "Env \<Rightarrow> Pipeline \<Rightarrow> (error + string) option \<Rightarrow> string \<Rightarrow> string \<Rightarrow> Result \<times> Call list" where
  "ProcessPDF env p r imageData mimeType =
     (case llmExtractor p of
        None \<Rightarrow>
          (Result_zero\<lparr>Error :=
             Some ''LLM extractor not configured - required for PDF processing''\<rparr>, [])
      | Some e \<Rightarrow>
          (case (case r of
                   Some (Inl err) \<Rightarrow> Inl (''failed to read PDF: '' @ err)
                 | Some (Inr bytes) \<Rightarrow> Inr bytes
                 | None \<Rightarrow> if 0 < length imageData then Inr imageData
                            else Inl ''no PDF data provided'') of
             Inl err \<Rightarrow> (Result_zero\<lparr>Error := Some err\<rparr>, [])
           | Inr pdfData \<Rightarrow>
               (case tryLLMTextExtraction env p e pdfData of
                  (textResult, calls1) \<Rightarrow>
                    if Invoice textResult \<noteq> None \<and> Error textResult = None
                    then (textResult, calls1)
                    else
                      (case tryLLMVisionExtraction env p e pdfData mimeType of
                         (visionResult, calls2) \<Rightarrow>
                           if Invoice visionResult \<noteq> None
                           then (visionResult, calls1 @ calls2)
                           else
                             (let warnings = Warnings textResult;
                                  warnings = (if Error visionResult \<noteq> None
                                              then warnings @ Warnings visionResult
                                              else warnings)
                              in if Error visionResult \<noteq> None then
                                   (Result_zero\<lparr>Error :=
                                      Some (''PDF extraction failed (text: ''
                                            @ fmt_v (Error textResult) @ '', vision: ''
                                            @ fmt_v (Error visionResult) @ '')''),
                                      Warnings := warnings\<rparr>,
                                    calls1 @ calls2)
                                 else if Error textResult \<noteq> None then
                                   (Result_zero\<lparr>Error :=
                                      Some (''PDF extraction failed: ''
                                            @ fmt_v (Error textResult)),
                                      Warnings := Warnings textResult\<rparr>,
                                    calls1 @ calls2)
                                 else
                                   (Result_zero\<lparr>Error := Some ''PDF extraction failed''\<rparr>,
                                    calls1 @ calls2))))))"

definition ProcessImage ::
  "Env \<Rightarrow> Pipeline \<Rightarrow> string \<Rightarrow> string \<Rightarrow> Result \<times> Call list" where
  "ProcessImage env p imageData mimeType =
     (case llmExtractor p of
        None \<Rightarrow> (Result_zero\<lparr>Error := Some ''LLM extractor not configured''\<rparr>, [])
      | Some e \<Rightarrow> tryLLMVisionExtraction env p e imageData mimeType)"

definition ProcessXMLBytes :: "Pipeline \<Rightarrow> string \<Rightarrow> Result" where
  "ProcessXMLBytes p data =
     (case xmlRegistry_Parse p data of
        Inl err \<Rightarrow> Result_zero\<lparr>Error := Some (''XML parsing failed: '' @ err)\<rparr>
      | Inr invoice \<Rightarrow>
          Result_zero\<lparr>Invoice := Some invoice, Method := MethodXML, Confidence := 1\<rparr>)"

subsection \<open>Concrete collaborators, for the instances below\<close>

definition LLMParty_zero :: LLMParty where
  "LLMParty_zero = \<lparr>LLMParty.Name = [], LLMParty.TaxID = [], LLMParty.Address = [],
     LLMParty.Phone = [], LLMParty.Email = [], LLMParty.BankAccount = [],
     LLMParty.BankName = []\<rparr>"

definition LLMLineItem_zero :: LLMLineItem where
  "LLMLineItem_zero = \<lparr>LLMLineItem.Number = 0, LLMLineItem.Code = [], LLMLineItem.Name = [],
     LLMLineItem.Description = [], LLMLineItem.Unit = [], LLMLineItem.Quantity = [],
     LLMLineItem.UnitPrice = [], DiscountPercent = [], DiscountAmount = [],
     LLMLineItem.Amount = [], LLMLineItem.VATRate = [], LLMLineItem.VATAmount = [],
     LLMLineItem.Total = []\<rparr>"

definition LLMResponse_zero :: LLMResponse where
  "LLMResponse_zero = \<lparr>InvoiceNumber = [], LLMResponse.Series = [], LLMResponse.Date = [],
     LLMResponse.Type = [], LLMResponse.Seller = LLMParty_zero,
     LLMResponse.Buyer = LLMParty_zero, LLMResponse.Items = [], Subtotal = [],
     TotalDiscount = [], TotalVAT = [], LLMResponse.TotalAmount = [],
     LLMResponse.Currency = [], LLMResponse.PaymentMethod = [], Notes = [],
     LLMResponse.DocumentType = [], LLMResponse.ReceiptNumber = [],
     LLMResponse.Cashier = [], LLMResponse.TerminalID = [], LLMResponse.Time = [],
     LLMResponse.AmountTendered = [], LLMResponse.Change = []\<rparr>"

text \<open>
  A model response whose line item states an amount and a total that do not
  follow from its quantity and unit price, and the record it decodes to.
\<close>

definition inconsistent_json :: string where
  \<open>inconsistent_json =
     ''{"invoice_number": "0000123", "items": [{"number": 1, "name": "Paper", ''
     @ ''"quantity": 2, "unit_price": 100, "amount": 5, "vat_rate": 10, ''
     @ ''"vat_amount": 7, "total": 5}], "total_amount": 5}''\<close>

definition inconsistent_response :: LLMResponse where
  "inconsistent_response =
     LLMResponse_zero\<lparr>InvoiceNumber := ''0000123'',
       LLMResponse.Items :=
         [LLMLineItem_zero\<lparr>LLMLineItem.Number := 1, LLMLineItem.Name := ''Paper'',
            LLMLineItem.Quantity := ''2'', LLMLineItem.UnitPrice := ''100'',
            LLMLineItem.Amount := ''5'', LLMLineItem.VATRate := ''10'',
            LLMLineItem.VATAmount := ''7'', LLMLineItem.Total := ''5''\<rparr>],
       LLMResponse.TotalAmount := ''5''\<rparr>"

definition ascii_ToLower :: "string \<Rightarrow> string" where
  "ascii_ToLower s =
     map (\<lambda>c. if 65 \<le> (of_char c :: nat) \<and> (of_char c :: nat) \<le> 90
              then char_of (of_char c + (32 :: nat)) else c) s"

definition env_demo :: Env where
  "env_demo = \<lparr>
     time_Parse = (\<lambda>format s. if format = ''2006-01-02'' \<and> s = ''2024-03-15''
                                then Some 63846057600 else None),
     strings_TrimSpace = (\<lambda>s. s),
     strings_ToLower = ascii_ToLower,
     json_decode = (\<lambda>s. if s = ''{}'' then Inr LLMResponse_zero
                             else if s = inconsistent_json then Inr inconsistent_response
                             else Inl ''unexpected end of JSON input''),
     ExtractJSON = (\<lambda>s. s),
     SystemPromptInvoiceExtractor = ''You are an expert invoice data extractor'',
     UserPromptTextExtraction = (\<lambda>text. ''Extract invoice data: '' @ text),
     UserPromptImageExtraction = ''Extract invoice data from this invoice image.'',
     UserPromptOCRCorrection = (\<lambda>text. ''OCR Text: '' @ text)\<rparr>"

definition extractor_demo :: Extractor where
  "extractor_demo = \<lparr>
     client_ChatText = (\<lambda>model system prompt. Inr ''{}''),
     client_ChatWithImage = (\<lambda>model system prompt image mime. Inr ''{}''),
     textModel = ''text-model'', visionModel = ''vision-model''\<rparr>"

definition extractor_inconsistent :: Extractor where
  "extractor_inconsistent = \<lparr>
     client_ChatText = (\<lambda>model system prompt. Inr inconsistent_json),
     client_ChatWithImage = (\<lambda>model system prompt image mime. Inr inconsistent_json),
     textModel = ''text-model'', visionModel = ''vision-model''\<rparr>"

definition pipeline_inconsistent :: Pipeline where
  "pipeline_inconsistent = \<lparr>
     xmlRegistry_Parse = (\<lambda>data. Inl ''no parser found''),
     pdfExtractor_ExtractBytes = (\<lambda>data. Inr ''Paper 2 x 100''),
     pdfExtractor_ConvertToImages = (\<lambda>data. Inl ''pdftoppm and convert both failed''),
     llmExtractor = Some extractor_inconsistent\<rparr>"

definition pipeline_text_ok :: Pipeline where
  "pipeline_text_ok = \<lparr>
     xmlRegistry_Parse = (\<lambda>data. Inl ''no parser found''),
     pdfExtractor_ExtractBytes = (\<lambda>data. Inr ''INVOICE 0001''),
     pdfExtractor_ConvertToImages = (\<lambda>data. Inl ''pdftoppm and convert both failed''),
     llmExtractor = Some extractor_demo\<rparr>"

definition pipeline_scanned :: Pipeline where
  "pipeline_scanned = \<lparr>
     xmlRegistry_Parse = (\<lambda>data. Inl ''no parser found''),
     pdfExtractor_ExtractBytes = (\<lambda>data. Inr []),
     pdfExtractor_ConvertToImages = (\<lambda>data. Inr ([CHR 0xFF, CHR 0xD8, CHR 0xFF, CHR 0xE0], [])),
     llmExtractor = Some extractor_demo\<rparr>"

definition pipeline_broken :: Pipeline where
  "pipeline_broken = \<lparr>
     xmlRegistry_Parse = (\<lambda>data. Inl ''no parser found''),
     pdfExtractor_ExtractBytes = (\<lambda>data. Inl ''failed to get page count''),
     pdfExtractor_ConvertToImages = (\<lambda>data. Inl ''pdftoppm and convert both failed''),
     llmExtractor = Some extractor_demo\<rparr>"

section \<open>Format detection (internal/processor/pipeline.go)\<close>

text \<open>
  A byte slice is a \<^typ>\<open>string\<close>, whose characters are bytes. \<^verbatim>\<open>contains\<close> is
  the source's own loop over the start positions; its bound
  \<^verbatim>\<open>len(s)-len(substr)\<close> is a signed integer. \<^verbatim>\<open>min\<close> is the source's own,
  renamed.
\<close>

datatype Format = FormatUnknown | FormatXML | FormatPDF | FormatImage

definition min' :: "int \<Rightarrow> int \<Rightarrow> int" where
  "min' a b = (if a < b then a else b)"

function contains_loop :: "string \<Rightarrow> string \<Rightarrow> nat \<Rightarrow> bool" where
  "contains_loop s substr i =
     (if int i \<le> int (length s) - int (length substr)
      then (if take (length substr) (drop i s) = substr then True
            else contains_loop s substr (i + 1))
      else False)"
  by pat_completeness auto
termination
  by (relation "measure (\<lambda>(s, substr, i). length s + 1 - i)") auto

definition contains :: "string \<Rightarrow> string \<Rightarrow> bool" where
  "contains s substr = contains_loop s substr 0"

definition DetectFormat :: "string \<Rightarrow> Format" where
  "DetectFormat data =
     (if length data = 0 then FormatUnknown
      else if 5 < length data
              \<and> (let header = take (nat (min' 100 (int (length data)))) data
                 in header ! 0 = CHR ''<'' \<or> contains header ''<?xml'')
      then FormatXML
      else if 4 \<le> length data \<and> take 4 data = ''%PDF'' then FormatPDF
      else if 8 \<le> length data
              \<and> (data ! 0 = CHR 0x89 \<and> data ! 1 = CHR 0x50 \<and> data ! 2 = CHR 0x4E
                   \<and> data ! 3 = CHR 0x47
                 \<or> data ! 0 = CHR 0xFF \<and> data ! 1 = CHR 0xD8 \<and> data ! 2 = CHR 0xFF
                 \<or> data ! 0 = CHR 0x49 \<and> data ! 1 = CHR 0x49 \<and> data ! 2 = CHR 0x2A
                   \<and> data ! 3 = CHR 0x00
                 \<or> data ! 0 = CHR 0x4D \<and> data ! 1 = CHR 0x4D \<and> data ! 2 = CHR 0x00
                   \<and> data ! 3 = CHR 0x2A)
      then FormatImage
      else FormatUnknown)"

section \<open>The PDF text miner's printability filter\<close>

text \<open>
  \<^verbatim>\<open>for _, r := range s\<close> walks a Go string rune by rune: each step decodes one
  UTF-8 sequence as \<^verbatim>\<open>utf8.DecodeRuneInString\<close> does and advances by its width;
  a byte that starts no valid sequence yields \<^verbatim>\<open>RuneError\<close> (U+FFFD) and width
  1. A rune is a Go \<^verbatim>\<open>int32\<close>, an \<^typ>\<open>int\<close> here. \<^verbatim>\<open>len(s)\<close> is the number
  of bytes.
\<close>

definition RuneError :: int where
  "RuneError = 0xFFFD"

definition isCont :: "int \<Rightarrow> bool" where
  "isCont b = (0x80 \<le> b \<and> b \<le> 0xBF)"

fun DecodeRune :: "int list \<Rightarrow> int \<times> nat" where
  "DecodeRune [] = (RuneError, 0)"
| "DecodeRune (b0 # bs) =
     (if b0 < 0x80 then (b0, 1)
      else if 0xC2 \<le> b0 \<and> b0 \<le> 0xDF then
        (case bs of
           b1 # _ \<Rightarrow>
             if isCont b1 then ((b0 mod 0x20) * 0x40 + b1 mod 0x40, 2) else (RuneError, 1)
         | _ \<Rightarrow> (RuneError, 1))
      else if 0xE0 \<le> b0 \<and> b0 \<le> 0xEF then
        (case bs of
           b1 # b2 # _ \<Rightarrow>
             if (if b0 = 0xE0 then 0xA0 else 0x80) \<le> b1
                \<and> b1 \<le> (if b0 = 0xED then 0x9F else 0xBF) \<and> isCont b2
             then ((b0 mod 0x10) * 0x1000 + (b1 mod 0x40) * 0x40 + b2 mod 0x40, 3)
             else (RuneError, 1)
         | _ \<Rightarrow> (RuneError, 1))
      else if 0xF0 \<le> b0 \<and> b0 \<le> 0xF4 then
        (case bs of
           b1 # b2 # b3 # _ \<Rightarrow>
             if (if b0 = 0xF0 then 0x90 else 0x80) \<le> b1
                \<and> b1 \<le> (if b0 = 0xF4 then 0x8F else 0xBF) \<and> isCont b2 \<and> isCont b3
             then ((b0 mod 0x08) * 0x40000 + (b1 mod 0x40) * 0x1000 + (b2 mod 0x40) * 0x40
                   + b3 mod 0x40, 4)
             else (RuneError, 1)
         | _ \<Rightarrow> (RuneError, 1))
      else (RuneError, 1))"

definition isPrintableRune :: "int \<Rightarrow> bool" where
  "isPrintableRune r =
     ((of_char CHR ''a'' \<le> r \<and> r \<le> of_char CHR ''z'')
      \<or> (of_char CHR ''A'' \<le> r \<and> r \<le> of_char CHR ''Z'')
      \<or> (of_char CHR ''0'' \<le> r \<and> r \<le> of_char CHR ''9'')
      \<or> r = of_char CHR '' '' \<or> r = of_char CHR ''.''
      \<or> r = of_char CHR '','' \<or> r = of_char CHR '':'' \<or> r = of_char CHR ''-''
      \<or> r = of_char CHR ''/''
      \<or> (0x00C0 \<le> r \<and> r \<le> 0x024F)
      \<or> (0x1E00 \<le> r \<and> r \<le> 0x1EFF))"

function isPrintableText_loop :: "int list \<Rightarrow> int \<Rightarrow> int" where
  "isPrintableText_loop [] printable = printable"
| "isPrintableText_loop (b # bs) printable =
     (case DecodeRune (b # bs) of
        (r, width) \<Rightarrow>
          isPrintableText_loop (drop width (b # bs))
            (if isPrintableRune r then printable + 1 else printable))"
  by pat_completeness auto
termination
  apply (relation "measure (\<lambda>(s, printable). length s)")
   apply simp
  subgoal premises prems for b bs
  proof -
    have "1 \<le> snd (DecodeRune (b # bs))"
      by (simp split: list.splits)
    with prems show ?thesis
      by (cases "DecodeRune (b # bs)") (simp del: DecodeRune.simps)
  qed
  done

text \<open>
  The source compares \<^verbatim>\<open>float64(printable)/float64(len(s))\<close> with 0.5. Both
  operands are integers that a \<^verbatim>\<open>float64\<close> holds exactly, and the correctly
  rounded quotient of two such integers exceeds 0.5 exactly when the exact
  quotient does, so the comparison is modelled on the rationals.
\<close>

definition isPrintableText :: "string \<Rightarrow> bool" where
  "isPrintableText s =
     (if length s = 0 then False
      else
        (let printable = isPrintableText_loop (map of_char s) 0
         in (of_int printable :: rat) / of_nat (length s) > 1 / 2))"

section \<open>The round trip through the normalizer\<close>

subsection \<open>Vietnamese numeric formatting\<close>






subsection \<open>Rendering and reading back\<close>







subsection \<open>Concrete invoices and replies, for the instances below\<close>








chapter \<open>Verification\<close>

declare contains_loop.simps [simp del]

section \<open>The calculator\<close>

subsection \<open>Facts about rounding\<close>

lemma Decimal_Round_0: "Decimal_Round d 0 = of_int (round_half_away d)"
  by (simp add: Decimal_Round_def)

lemma round_half_away_of_int: "round_half_away (of_int n) = n"
proof -
  have "\<lfloor>(of_int n :: rat) + 1 / 2\<rfloor> = n" by linarith
  moreover have "\<lfloor>- (of_int n :: rat) + 1 / 2\<rfloor> = - n" by linarith
  ultimately show ?thesis by (simp add: round_half_away_def)
qed

lemma round_half_away_add_int:
  assumes "0 \<le> x" and "0 \<le> n"
  shows "round_half_away (x + of_int n) = round_half_away x + n"
proof -
  have "\<lfloor>x + of_int n + 1 / 2\<rfloor> = \<lfloor>x + 1 / 2\<rfloor> + n" by linarith
  with assms show ?thesis by (simp add: round_half_away_def)
qed

text \<open>
  \<^verbatim>\<open>Div\<close> rounds at 16 fractional digits before \<^verbatim>\<open>Round(0)\<close> rounds again, so
  the two roundings together are not the rounding of the exact quotient.
\<close>

lemma Div_then_Round_is_double_rounding:
  "Decimal_Round (Decimal_Div (49999999999999995 / 10 ^ 15) (Decimal_NewFromInt 100)) 0 = 1
   \<and> of_int (round_half_away (49999999999999995 / 10 ^ 15 / 100)) = (0 :: rat)"
  by code_simp

subsection \<open>The line item\<close>

lemma Calculate_fields:
  "Amount (Calculate li) = Quantity li * UnitPrice li"
  "DiscountAmt (Calculate li) =
     (if Discount li = 0 then DiscountAmt li
      else Decimal_Round (Decimal_Div (Quantity li * UnitPrice li * Discount li) 100) 0)"
  "VATAmount (Calculate li) =
     Decimal_Round (Decimal_Div ((Amount (Calculate li) - DiscountAmt (Calculate li))
        * of_int (sint (VATRate li))) 100) 0"
  "Total (Calculate li) =
     Decimal_Round (Amount (Calculate li) - DiscountAmt (Calculate li)
        + VATAmount (Calculate li)) 0"
  "Quantity (Calculate li) = Quantity li" "UnitPrice (Calculate li) = UnitPrice li"
  "Discount (Calculate li) = Discount li" "VATRate (Calculate li) = VATRate li"
  by (simp_all add: Calculate_def Let_def Decimal_Mul_def Decimal_Sub_def Decimal_Add_def
        Decimal_IsZero_def Decimal_NewFromInt_def)

lemma Calculate_idem: "Calculate (Calculate li) = Calculate li"
  by (simp add: Calculate_def Let_def)

lemma VATAmount_Calculate_whole: "\<exists>n::int. VATAmount (Calculate li) = of_int n"
  by (simp add: Calculate_def Let_def Decimal_Round_0)

text \<open>
  C1. The claim: \<^verbatim>\<open>Calculate\<close> sets amount, discount amount, VAT amount and total
  in this order, and whenever the discount percent is zero the stored discount
  amount is exactly zero, whatever the field held before the call. The code
  assigns the discount amount only when the discount percent is non-zero: on an
  item of quantity 1, unit price 100, VAT rate 10, discount percent 0 and a
  discount amount of 7 left from before the call, the 7 stays, the VAT amount is
  computed from a taxable amount of 93 and the total is 102, where the claim
  gives discount amount 0, VAT amount 10 and total 110.
\<close>

theorem C1_Calculate_keeps_stale_discount_amount:
  "Discount stale_discount_item = 0
   \<and> Calculate stale_discount_item
       = stale_discount_item\<lparr>Amount := 100, DiscountAmt := 7, VATAmount := 9, Total := 102\<rparr>"
  by code_simp

subsection \<open>The invoice totals\<close>

lemma CalculateTotals_loop_eq:
  "CalculateTotals_loop its s t =
     (map Calculate its,
      s + (\<Sum>i\<leftarrow>map Calculate its. Amount i - DiscountAmt i),
      t + (\<Sum>i\<leftarrow>map Calculate its. VATAmount i))"
  by (induction its arbitrary: s t)
     (simp_all add: Let_def Decimal_Add_def Decimal_Sub_def add.assoc)

lemma sum_VATAmount_whole:
  "\<exists>n::int. (\<Sum>i\<leftarrow>map Calculate its. VATAmount i) = of_int n"
proof (induction its)
  case Nil
  show ?case by (simp add: exI [of _ 0])
next
  case (Cons a its)
  obtain m :: int where m: "VATAmount (Calculate a) = of_int m"
    using VATAmount_Calculate_whole by blast
  obtain n :: int where n: "(\<Sum>i\<leftarrow>map Calculate its. VATAmount i) = of_int n"
    using Cons by blast
  have "(\<Sum>i\<leftarrow>map Calculate (a # its). VATAmount i) = of_int (m + n)"
    using m n by simp
  then show ?case by blast
qed

text \<open>
  C2, as stated: the invoice total is the rounding of the sum of the rounded
  subtotal and the rounded tax. It fails on an invoice with a credit line: items
  \<open>-1 \<times> 10.5\<close> at rate 0 and \<open>1 \<times> 10\<close> at rate 10 give the running sums
  \<open>-0.5\<close> and \<open>1\<close>, so subtotal \<open>-1\<close>, tax \<open>1\<close> and total
  \<open>round (0.5) = 1\<close>, while the rounded subtotal and tax add up to \<open>0\<close>.
\<close>

theorem C2_total_of_rounded_counterexample:
  "\<not> TotalAmount (CalculateTotals credit_line_invoice)
       = Decimal_Round (Decimal_Add (SubtotalAmount (CalculateTotals credit_line_invoice))
                          (TaxAmount (CalculateTotals credit_line_invoice))) 0"
  by code_simp

text \<open>
  C2, amended: \<^verbatim>\<open>CalculateTotals\<close> recalculates every line item and sets the
  subtotal to the rounded sum of \<open>amount - discountAmount\<close>, the tax to the rounded
  sum of the VAT amounts, and the total to the rounding of the sum of the two
  unrounded running sums; when both running sums are non-negative this total is
  also the rounding of the sum of the rounded subtotal and tax.
\<close>

theorem C2_CalculateTotals_aggregates:
  fixes invoice :: Invoice
  defines "r \<equiv> CalculateTotals invoice"
  shows "Items r = map Calculate (Items invoice)
    \<and> SubtotalAmount r = Decimal_Round (\<Sum>i\<leftarrow>Items r. Amount i - DiscountAmt i) 0
    \<and> TaxAmount r = Decimal_Round (\<Sum>i\<leftarrow>Items r. VATAmount i) 0
    \<and> TotalAmount r =
        Decimal_Round ((\<Sum>i\<leftarrow>Items r. Amount i - DiscountAmt i)
                        + (\<Sum>i\<leftarrow>Items r. VATAmount i)) 0
    \<and> (0 \<le> (\<Sum>i\<leftarrow>Items r. Amount i - DiscountAmt i)
         \<and> 0 \<le> (\<Sum>i\<leftarrow>Items r. VATAmount i)
       \<longrightarrow> TotalAmount r
            = Decimal_Round (Decimal_Add (SubtotalAmount r) (TaxAmount r)) 0)"
proof -
  define S where "S = (\<Sum>i\<leftarrow>map Calculate (Items invoice). Amount i - DiscountAmt i)"
  define T where "T = (\<Sum>i\<leftarrow>map Calculate (Items invoice). VATAmount i)"
  have loop: "CalculateTotals_loop (Items invoice) 0 0 = (map Calculate (Items invoice), S, T)"
    by (simp add: CalculateTotals_loop_eq S_def T_def)
  have items: "Items r = map Calculate (Items invoice)"
    and sub: "SubtotalAmount r = Decimal_Round S 0"
    and tax: "TaxAmount r = Decimal_Round T 0"
    and tot: "TotalAmount r = Decimal_Round (S + T) 0"
    by (simp_all add: r_def CalculateTotals_def loop Decimal_Zero_def Decimal_Add_def)
  obtain n :: int where n: "T = of_int n"
    unfolding T_def using sum_VATAmount_whole by blast
  have agree: "TotalAmount r = Decimal_Round (Decimal_Add (SubtotalAmount r) (TaxAmount r)) 0"
    if "0 \<le> S" "0 \<le> T"
  proof -
    from that n have n0: "0 \<le> n" by simp
    have "round_half_away (S + T) = round_half_away S + n"
      unfolding n using that(1) n0 by (rule round_half_away_add_int)
    moreover have "round_half_away (of_int (round_half_away S) + of_int (round_half_away T))
        = round_half_away S + n"
      unfolding n round_half_away_of_int of_int_add [symmetric] ..
    ultimately show ?thesis
      by (simp add: sub tax tot Decimal_Round_0 Decimal_Add_def)
  qed
  have S: "(\<Sum>i\<leftarrow>Items r. Amount i - DiscountAmt i) = S"
    and T: "(\<Sum>i\<leftarrow>Items r. VATAmount i) = T"
    by (simp_all only: items S_def T_def)
  show ?thesis unfolding S T using items sub tax tot agree by blast
qed

theorem C2_CalculateTotals_aggregates_witness:
  "0 \<le> (\<Sum>i\<leftarrow>Items (CalculateTotals half_unit_invoice). Amount i - DiscountAmt i)
   \<and> 0 \<le> (\<Sum>i\<leftarrow>Items (CalculateTotals half_unit_invoice). VATAmount i)
   \<and> SubtotalAmount (CalculateTotals half_unit_invoice) = 8
   \<and> TaxAmount (CalculateTotals half_unit_invoice) = 1
   \<and> TotalAmount (CalculateTotals half_unit_invoice) = 9
   \<and> TotalAmount (CalculateTotals half_unit_invoice)
       = Decimal_Round (Decimal_Add (SubtotalAmount (CalculateTotals half_unit_invoice))
                          (TaxAmount (CalculateTotals half_unit_invoice))) 0"
proof -
  have h: "0 \<le> (\<Sum>i\<leftarrow>Items (CalculateTotals half_unit_invoice). Amount i - DiscountAmt i)
      \<and> 0 \<le> (\<Sum>i\<leftarrow>Items (CalculateTotals half_unit_invoice). VATAmount i)"
    by code_simp
  have v: "SubtotalAmount (CalculateTotals half_unit_invoice) = 8
      \<and> TaxAmount (CalculateTotals half_unit_invoice) = 1
      \<and> TotalAmount (CalculateTotals half_unit_invoice) = 9"
    by code_simp
  show ?thesis
    using C2_CalculateTotals_aggregates [of half_unit_invoice] h v by blast
qed

text \<open>
  C8. Running \<^verbatim>\<open>CalculateTotals\<close> on its own output changes nothing: every line
  item and the subtotal, tax and total are what the first run left.
\<close>

theorem C8_CalculateTotals_idempotent:
  "CalculateTotals (CalculateTotals invoice) = CalculateTotals invoice"
  by (simp add: CalculateTotals_def CalculateTotals_loop_eq Calculate_idem o_def)

section \<open>The decoder and the normalizer on the concrete replies\<close>

lemma isValidNumber_plain_examples:
  "isValidNumber ''2''" "isValidNumber ''100''" "isValidNumber ''5''"
  "isValidNumber ''10''" "isValidNumber ''7''"
  by (simp_all add: isValidNumber_def skipIntegerPart_def skipFraction_def skipExponent_def
        isDigitChar_def digitVal_def)

lemma json_Unmarshal_demo:
  "json_Unmarshal env_demo ''{}'' = Inr LLMResponse_zero"
  "json_Unmarshal env_demo inconsistent_json = Inr inconsistent_response"
  by (simp_all add: json_Unmarshal_def env_demo_def numbers_of_response_def
        numbers_of_item_def json_Number_ok_def isValidNumber_plain_examples
        LLMResponse_zero_def LLMLineItem_zero_def inconsistent_response_def
        inconsistent_json_def)

lemma parseResponse_demo:
  "parseResponse env_demo ''{}'' = Inr (convertToInvoice env_demo LLMResponse_zero)"
  "parseResponse env_demo inconsistent_json
     = Inr (convertToInvoice env_demo inconsistent_response)"
proof -
  have "ExtractJSON env_demo s = s" for s
    by (simp add: env_demo_def)
  then show "parseResponse env_demo ''{}'' = Inr (convertToInvoice env_demo LLMResponse_zero)"
    "parseResponse env_demo inconsistent_json
       = Inr (convertToInvoice env_demo inconsistent_response)"
    by (simp_all add: parseResponse_def json_Unmarshal_demo)
qed

section \<open>The orchestrator (internal/processor/pipeline.go)\<close>

subsection \<open>The two stages\<close>

lemma text_stage_cases:
  obtains
    (read_error) err where "pdfExtractor_ExtractBytes p pdfData = Inl err"
      "tryLLMTextExtraction env p e pdfData =
         (Result_zero\<lparr>Error := Some err, Warnings := [''PDF text extraction failed: '' @ err]\<rparr>,
          [Call_ExtractBytes])"
  | (no_text) "pdfExtractor_ExtractBytes p pdfData = Inr []"
      "tryLLMTextExtraction env p e pdfData =
         (Result_zero\<lparr>Error := Some ''no text extracted from PDF'',
                        Warnings := [''PDF contains no extractable text'']\<rparr>,
          [Call_ExtractBytes])"
  | (llm_error) rawText err where "pdfExtractor_ExtractBytes p pdfData = Inr rawText" "rawText \<noteq> []"
      "ExtractFromOCRText env e rawText = Inl err"
      "tryLLMTextExtraction env p e pdfData =
         (Result_zero\<lparr>Error := Some err, Warnings := [''LLM text extraction failed: '' @ err]\<rparr>,
          [Call_ExtractBytes, Call_ChatText])"
  | (success) rawText invoice where "pdfExtractor_ExtractBytes p pdfData = Inr rawText" "rawText \<noteq> []"
      "ExtractFromOCRText env e rawText = Inr invoice"
      "tryLLMTextExtraction env p e pdfData =
         (Result_zero\<lparr>Invoice := Some invoice, Method := MethodLLMText, Confidence := 85 / 100\<rparr>,
          [Call_ExtractBytes, Call_ChatText])"
proof (cases "pdfExtractor_ExtractBytes p pdfData")
  case (Inl err)
  then show ?thesis using read_error by (simp add: tryLLMTextExtraction_def)
next
  case (Inr rawText)
  show ?thesis
  proof (cases "rawText = []")
    case True
    with Inr show ?thesis using no_text by (simp add: tryLLMTextExtraction_def)
  next
    case False
    show ?thesis
    proof (cases "ExtractFromOCRText env e rawText")
      case (Inl err)
      with Inr False show ?thesis using llm_error by (simp add: tryLLMTextExtraction_def)
    next
      case (Inr invoice)
      with \<open>pdfExtractor_ExtractBytes p pdfData = Inr rawText\<close> False show ?thesis
        using success by (simp add: tryLLMTextExtraction_def)
    qed
  qed
qed

lemma vision_stage_calls:
  "snd (tryLLMVisionExtraction env p e data mimeType) \<noteq> [] \<and>
   set (snd (tryLLMVisionExtraction env p e data mimeType))
     \<subseteq> {Call_ConvertToImages, Call_ChatWithImage}"
  by (simp add: tryLLMVisionExtraction_def Let_def split: sum.splits prod.splits)

lemma vision_stage_fst:
  "(\<exists>err w. fst (tryLLMVisionExtraction env p e data mimeType) =
         Result_zero\<lparr>Error := Some err, Warnings := [w]\<rparr>)
   \<or> (\<exists>invoice. fst (tryLLMVisionExtraction env p e data mimeType) =
         Result_zero\<lparr>Invoice := Some invoice, Method := MethodLLMVision, Confidence := 80 / 100\<rparr>)"
  by (simp add: tryLLMVisionExtraction_def Let_def split: sum.splits prod.splits) blast

lemma vision_stage_result:
  "\<exists>calls. calls \<noteq> [] \<and> set calls \<subseteq> {Call_ConvertToImages, Call_ChatWithImage} \<and>
     ((\<exists>err w. tryLLMVisionExtraction env p e data mimeType =
         (Result_zero\<lparr>Error := Some err, Warnings := [w]\<rparr>, calls))
      \<or> (\<exists>invoice. tryLLMVisionExtraction env p e data mimeType =
         (Result_zero\<lparr>Invoice := Some invoice, Method := MethodLLMVision, Confidence := 80 / 100\<rparr>,
          calls)))"
  using vision_stage_calls [of env p e data mimeType] vision_stage_fst [of env p e data mimeType]
  by (cases "tryLLMVisionExtraction env p e data mimeType") auto

lemma vision_stage_cases:
  obtains
    (failure) err w calls where
      "tryLLMVisionExtraction env p e data mimeType =
         (Result_zero\<lparr>Error := Some err, Warnings := [w]\<rparr>, calls)"
      "calls \<noteq> []" "set calls \<subseteq> {Call_ConvertToImages, Call_ChatWithImage}"
  | (success) invoice calls where
      "tryLLMVisionExtraction env p e data mimeType =
         (Result_zero\<lparr>Invoice := Some invoice, Method := MethodLLMVision, Confidence := 80 / 100\<rparr>,
          calls)"
      "calls \<noteq> []" "set calls \<subseteq> {Call_ConvertToImages, Call_ChatWithImage}"
  using vision_stage_result [of env p e data mimeType] by blast

lemma ProcessPDF_stages:
  assumes "llmExtractor p = Some e"
    and "r = Some (Inr pdfData) \<or> (r = None \<and> imageData = pdfData \<and> pdfData \<noteq> [])"
    and "tryLLMTextExtraction env p e pdfData = (textResult, calls1)"
    and "tryLLMVisionExtraction env p e pdfData mimeType = (visionResult, calls2)"
  shows "ProcessPDF env p r imageData mimeType =
     (if Invoice textResult \<noteq> None \<and> Error textResult = None then (textResult, calls1)
      else if Invoice visionResult \<noteq> None then (visionResult, calls1 @ calls2)
      else if Error visionResult \<noteq> None then
        (Result_zero\<lparr>Error := Some (''PDF extraction failed (text: ''
                                            @ fmt_v (Error textResult) @ '', vision: ''
                                            @ fmt_v (Error visionResult) @ '')''),
                      Warnings := Warnings textResult @ Warnings visionResult\<rparr>, calls1 @ calls2)
      else if Error textResult \<noteq> None then
        (Result_zero\<lparr>Error := Some (''PDF extraction failed: '' @ fmt_v (Error textResult)),
                      Warnings := Warnings textResult\<rparr>, calls1 @ calls2)
      else (Result_zero\<lparr>Error := Some ''PDF extraction failed''\<rparr>, calls1 @ calls2))"
  using assms by (auto simp: ProcessPDF_def Let_def)

text \<open>
  C4. \<^verbatim>\<open>ProcessPDF\<close>, with the extractor configured and the PDF bytes read: if
  the miner returns non-empty text and the normalizer succeeds on it, the result
  is that invoice with method \<^verbatim>\<open>llm_text\<close> and confidence 0.85, and the only
  collaborators called are the miner's text extraction and the text model call
  (no vision call). If the text stage fails, for any of its three reasons (the
  miner errs, the mined text is empty, the normalizer errs), the calls of the
  vision stage follow those of the text stage and are at least one, and when
  the vision stage has an invoice the result is it, with method
  \<^verbatim>\<open>llm_vision\<close> and confidence 0.80.
\<close>

theorem C4_ProcessPDF_text_first_then_vision:
  assumes "llmExtractor p = Some e"
    and "r = Some (Inr pdfData) \<or> (r = None \<and> imageData = pdfData \<and> pdfData \<noteq> [])"
  shows
    "(\<forall>rawText invoice.
        pdfExtractor_ExtractBytes p pdfData = Inr rawText \<and> rawText \<noteq> []
          \<and> ExtractFromOCRText env e rawText = Inr invoice
        \<longrightarrow> ProcessPDF env p r imageData mimeType =
              (\<lparr>Invoice = Some invoice, Method = MethodLLMText, Confidence = 85 / 100,
                 Warnings = [], Error = None\<rparr>,
               [Call_ExtractBytes, Call_ChatText]))
     \<and> ((\<exists>err. pdfExtractor_ExtractBytes p pdfData = Inl err)
           \<or> pdfExtractor_ExtractBytes p pdfData = Inr []
           \<or> (\<exists>rawText err. pdfExtractor_ExtractBytes p pdfData = Inr rawText
                 \<and> ExtractFromOCRText env e rawText = Inl err)
         \<longrightarrow> snd (ProcessPDF env p r imageData mimeType) =
               snd (tryLLMTextExtraction env p e pdfData)
               @ snd (tryLLMVisionExtraction env p e pdfData mimeType)
             \<and> snd (tryLLMVisionExtraction env p e pdfData mimeType) \<noteq> []
             \<and> set (snd (tryLLMVisionExtraction env p e pdfData mimeType))
                 \<subseteq> {Call_ConvertToImages, Call_ChatWithImage}
             \<and> (\<forall>invoice.
                   Invoice (fst (tryLLMVisionExtraction env p e pdfData mimeType)) = Some invoice
                   \<longrightarrow> fst (ProcessPDF env p r imageData mimeType) =
                         \<lparr>Invoice = Some invoice, Method = MethodLLMVision,
                           Confidence = 80 / 100, Warnings = [], Error = None\<rparr>))"
proof (intro conjI allI impI)
  fix rawText invoice
  assume "pdfExtractor_ExtractBytes p pdfData = Inr rawText \<and> rawText \<noteq> []
          \<and> ExtractFromOCRText env e rawText = Inr invoice"
  then have T: "tryLLMTextExtraction env p e pdfData =
      (Result_zero\<lparr>Invoice := Some invoice, Method := MethodLLMText, Confidence := 85 / 100\<rparr>,
       [Call_ExtractBytes, Call_ChatText])"
    by (simp add: tryLLMTextExtraction_def)
  obtain visionResult calls2 where
    V: "tryLLMVisionExtraction env p e pdfData mimeType = (visionResult, calls2)"
    by (cases "tryLLMVisionExtraction env p e pdfData mimeType")
  show "ProcessPDF env p r imageData mimeType =
      (\<lparr>Invoice = Some invoice, Method = MethodLLMText, Confidence = 85 / 100,
         Warnings = [], Error = None\<rparr>,
       [Call_ExtractBytes, Call_ChatText])"
    by (simp add: ProcessPDF_stages [OF assms T V] Result_zero_def)
next
  assume fails: "(\<exists>err. pdfExtractor_ExtractBytes p pdfData = Inl err)
           \<or> pdfExtractor_ExtractBytes p pdfData = Inr []
           \<or> (\<exists>rawText err. pdfExtractor_ExtractBytes p pdfData = Inr rawText
                 \<and> ExtractFromOCRText env e rawText = Inl err)"
  obtain textResult calls1 where
    T: "tryLLMTextExtraction env p e pdfData = (textResult, calls1)"
    by (cases "tryLLMTextExtraction env p e pdfData")
  obtain visionResult calls2 where
    V: "tryLLMVisionExtraction env p e pdfData mimeType = (visionResult, calls2)"
    by (cases "tryLLMVisionExtraction env p e pdfData mimeType")
  have noinv: "Invoice textResult = None"
    using fails T
    by (cases rule: text_stage_cases [of p pdfData env e]) (auto simp: Result_zero_def)
  have calls: "snd (ProcessPDF env p r imageData mimeType) = calls1 @ calls2"
    using noinv by (simp add: ProcessPDF_stages [OF assms T V])
  show "snd (ProcessPDF env p r imageData mimeType) =
      snd (tryLLMTextExtraction env p e pdfData)
      @ snd (tryLLMVisionExtraction env p e pdfData mimeType)"
    using calls by (simp add: T V)
  show "snd (tryLLMVisionExtraction env p e pdfData mimeType) \<noteq> []"
    using vision_stage_calls by blast
  show "set (snd (tryLLMVisionExtraction env p e pdfData mimeType))
      \<subseteq> {Call_ConvertToImages, Call_ChatWithImage}"
    using vision_stage_calls by blast
  fix invoice
  assume "Invoice (fst (tryLLMVisionExtraction env p e pdfData mimeType)) = Some invoice"
  then have vr: "visionResult =
      Result_zero\<lparr>Invoice := Some invoice, Method := MethodLLMVision, Confidence := 80 / 100\<rparr>"
    using V vision_stage_fst [of env p e pdfData mimeType] by (auto simp: Result_zero_def)
  show "fst (ProcessPDF env p r imageData mimeType) =
      \<lparr>Invoice = Some invoice, Method = MethodLLMVision, Confidence = 80 / 100,
        Warnings = [], Error = None\<rparr>"
    using noinv by (simp add: ProcessPDF_stages [OF assms T V] vr Result_zero_def)
qed

theorem C4_ProcessPDF_text_first_then_vision_witness:
  "llmExtractor pipeline_text_ok = Some extractor_demo
   \<and> pdfExtractor_ExtractBytes pipeline_text_ok ''%PDF-1.4'' = Inr ''INVOICE 0001''
   \<and> ''INVOICE 0001'' \<noteq> []
   \<and> ExtractFromOCRText env_demo extractor_demo ''INVOICE 0001''
       = Inr (convertToInvoice env_demo LLMResponse_zero)
   \<and> ProcessPDF env_demo pipeline_text_ok (Some (Inr ''%PDF-1.4'')) [] ''application/pdf''
       = (\<lparr>Invoice = Some (convertToInvoice env_demo LLMResponse_zero),
            Method = ''llm_text'', Confidence = 85 / 100, Warnings = [], Error = None\<rparr>,
          [Call_ExtractBytes, Call_ChatText])
   \<and> llmExtractor pipeline_scanned = Some extractor_demo
   \<and> pdfExtractor_ExtractBytes pipeline_scanned ''%PDF-1.4'' = Inr []
   \<and> ProcessPDF env_demo pipeline_scanned (Some (Inr ''%PDF-1.4'')) [] ''application/pdf''
       = (\<lparr>Invoice = Some (convertToInvoice env_demo LLMResponse_zero),
            Method = ''llm_vision'', Confidence = 80 / 100, Warnings = [], Error = None\<rparr>,
          [Call_ExtractBytes, Call_ConvertToImages, Call_ChatWithImage])"
proof -
  let ?pdf = "''%PDF-1.4''"
  let ?inv = "convertToInvoice env_demo LLMResponse_zero"
  have a1: "llmExtractor pipeline_text_ok = Some extractor_demo"
    by (simp add: pipeline_text_ok_def)
  have a2: "pdfExtractor_ExtractBytes pipeline_text_ok ?pdf = Inr ''INVOICE 0001''"
    by (simp add: pipeline_text_ok_def)
  have a3: "ExtractFromOCRText env_demo extractor_demo ''INVOICE 0001'' = Inr ?inv"
    by (simp add: ExtractFromOCRText_def parseResponse_demo extractor_demo_def)
  have b1: "llmExtractor pipeline_scanned = Some extractor_demo"
    by (simp add: pipeline_scanned_def)
  have b2: "pdfExtractor_ExtractBytes pipeline_scanned ?pdf = Inr []"
    by (simp add: pipeline_scanned_def)
  have b3: "tryLLMVisionExtraction env_demo pipeline_scanned extractor_demo ?pdf ''application/pdf''
      = (Result_zero\<lparr>Invoice := Some ?inv, Method := MethodLLMVision, Confidence := 80 / 100\<rparr>,
         [Call_ConvertToImages, Call_ChatWithImage])"
    by (simp add: tryLLMVisionExtraction_def ExtractFromImage_def parseResponse_demo
          extractor_demo_def pipeline_scanned_def)
  have b4: "tryLLMTextExtraction env_demo pipeline_scanned extractor_demo ?pdf
      = (Result_zero\<lparr>Error := Some ''no text extracted from PDF'',
                       Warnings := [''PDF contains no extractable text'']\<rparr>,
         [Call_ExtractBytes])"
    by (simp add: tryLLMTextExtraction_def pipeline_scanned_def)
  have in1: "Some (Inr ?pdf) = Some (Inr ?pdf) \<or> (Some (Inr ?pdf) = None \<and> [] = ?pdf \<and> ?pdf \<noteq> [])"
    by simp
  note text_ok = C4_ProcessPDF_text_first_then_vision
    [where env = env_demo and mimeType = "''application/pdf''", OF a1 in1, THEN conjunct1]
  note scanned = C4_ProcessPDF_text_first_then_vision
    [where env = env_demo and mimeType = "''application/pdf''", OF b1 in1, THEN conjunct2]
  have r1: "ProcessPDF env_demo pipeline_text_ok (Some (Inr ?pdf)) [] ''application/pdf''
       = (\<lparr>Invoice = Some ?inv, Method = ''llm_text'', Confidence = 85 / 100,
            Warnings = [], Error = None\<rparr>,
          [Call_ExtractBytes, Call_ChatText])"
    using text_ok a2 a3 by (simp add: MethodLLMText_def)
  have r2: "ProcessPDF env_demo pipeline_scanned (Some (Inr ?pdf)) [] ''application/pdf''
       = (\<lparr>Invoice = Some ?inv, Method = ''llm_vision'', Confidence = 80 / 100,
            Warnings = [], Error = None\<rparr>,
          [Call_ExtractBytes, Call_ConvertToImages, Call_ChatWithImage])"
    using scanned b2 b3 b4 by (simp add: MethodLLMVision_def Result_zero_def prod_eq_iff)
  show ?thesis using a1 a2 a3 b1 b2 r1 r2 by simp
qed

text \<open>
  C5. When both stages fail, \<^verbatim>\<open>ProcessPDF\<close> returns no invoice, one error whose
  message combines the text stage's and the vision stage's errors, and the
  warnings of the text stage followed by those of the vision stage.
\<close>

theorem C5_ProcessPDF_both_stages_fail:
  assumes "llmExtractor p = Some e"
    and "r = Some (Inr pdfData) \<or> (r = None \<and> imageData = pdfData \<and> pdfData \<noteq> [])"
    and "Invoice (fst (tryLLMTextExtraction env p e pdfData)) = None"
    and "Invoice (fst (tryLLMVisionExtraction env p e pdfData mimeType)) = None"
  shows "\<exists>textErr visionErr.
      Error (fst (tryLLMTextExtraction env p e pdfData)) = Some textErr
    \<and> Error (fst (tryLLMVisionExtraction env p e pdfData mimeType)) = Some visionErr
    \<and> fst (ProcessPDF env p r imageData mimeType) =
        \<lparr>Invoice = None, Method = [], Confidence = 0,
          Warnings = Warnings (fst (tryLLMTextExtraction env p e pdfData))
                     @ Warnings (fst (tryLLMVisionExtraction env p e pdfData mimeType)),
          Error = Some (''PDF extraction failed (text: '' @ textErr @ '', vision: ''
                         @ visionErr @ '')'')\<rparr>"
proof -
  obtain textResult calls1 where
    T: "tryLLMTextExtraction env p e pdfData = (textResult, calls1)"
    by (cases "tryLLMTextExtraction env p e pdfData")
  obtain visionResult calls2 where
    V: "tryLLMVisionExtraction env p e pdfData mimeType = (visionResult, calls2)"
    by (cases "tryLLMVisionExtraction env p e pdfData mimeType")
  from assms(3) T obtain textErr where te: "Error textResult = Some textErr"
    by (cases rule: text_stage_cases [of p pdfData env e]) (auto simp: Result_zero_def)
  from assms(4) V obtain visionErr where ve: "Error visionResult = Some visionErr"
    by (cases rule: vision_stage_cases [of env p e pdfData mimeType])
       (auto simp: Result_zero_def)
  have "fst (ProcessPDF env p r imageData mimeType) =
      Result_zero\<lparr>Error := Some (''PDF extraction failed (text: '' @ textErr @ '', vision: ''
                         @ visionErr @ '')''),
        Warnings := Warnings textResult @ Warnings visionResult\<rparr>"
    using assms(3,4) T V te ve
    by (simp add: ProcessPDF_stages [OF assms(1,2) T V] fmt_v_def)
  then show ?thesis using T V te ve by (simp add: Result_zero_def)
qed

theorem C5_ProcessPDF_both_stages_fail_witness:
  "llmExtractor pipeline_broken = Some extractor_demo
   \<and> Invoice (fst (tryLLMTextExtraction env_demo pipeline_broken extractor_demo ''%PDF-1.4''))
       = None
   \<and> Invoice (fst (tryLLMVisionExtraction env_demo pipeline_broken extractor_demo ''%PDF-1.4''
                      ''application/pdf'')) = None
   \<and> fst (ProcessPDF env_demo pipeline_broken (Some (Inr ''%PDF-1.4'')) [] ''application/pdf'')
       = \<lparr>Invoice = None, Method = [], Confidence = 0,
          Warnings = [''PDF text extraction failed: failed to get page count'',
                      ''PDF to image conversion failed: pdftoppm and convert both failed''],
          Error = Some (''PDF extraction failed (text: failed to get page count, vision: ''
                        @ ''failed to convert PDF to images: pdftoppm and convert both failed)'')\<rparr>"
proof -
  let ?pdf = "''%PDF-1.4''"
  have a1: "llmExtractor pipeline_broken = Some extractor_demo"
    by (simp add: pipeline_broken_def)
  have in1: "Some (Inr ?pdf) = Some (Inr ?pdf) \<or> (Some (Inr ?pdf) = None \<and> [] = ?pdf \<and> ?pdf \<noteq> [])"
    by simp
  have T: "fst (tryLLMTextExtraction env_demo pipeline_broken extractor_demo ?pdf)
      = Result_zero\<lparr>Error := Some ''failed to get page count'',
                      Warnings := [''PDF text extraction failed: failed to get page count'']\<rparr>"
    by (simp add: tryLLMTextExtraction_def pipeline_broken_def)
  have V: "fst (tryLLMVisionExtraction env_demo pipeline_broken extractor_demo ?pdf
                  ''application/pdf'')
      = Result_zero\<lparr>Error := Some ''failed to convert PDF to images: pdftoppm and convert both failed'',
                      Warnings := [''PDF to image conversion failed: pdftoppm and convert both failed'']\<rparr>"
    by (simp add: tryLLMVisionExtraction_def pipeline_broken_def)
  have t0: "Invoice (fst (tryLLMTextExtraction env_demo pipeline_broken extractor_demo ?pdf)) = None"
    by (simp add: T Result_zero_def)
  have v0: "Invoice (fst (tryLLMVisionExtraction env_demo pipeline_broken extractor_demo ?pdf
                  ''application/pdf'')) = None"
    by (simp add: V Result_zero_def)
  from C5_ProcessPDF_both_stages_fail [OF a1 in1 t0 v0]
  have "fst (ProcessPDF env_demo pipeline_broken (Some (Inr ?pdf)) [] ''application/pdf'')
       = \<lparr>Invoice = None, Method = [], Confidence = 0,
          Warnings = [''PDF text extraction failed: failed to get page count'',
                      ''PDF to image conversion failed: pdftoppm and convert both failed''],
          Error = Some (''PDF extraction failed (text: failed to get page count, vision: ''
                        @ ''failed to convert PDF to images: pdftoppm and convert both failed)'')\<rparr>"
    by (simp add: T V Result_zero_def)
  with a1 t0 v0 show ?thesis by simp
qed

text \<open>
  C10. When the text stage fails, it has recorded a warning; if the vision stage
  then succeeds, \<^verbatim>\<open>ProcessPDF\<close> returns the vision stage's result unchanged:
  method \<^verbatim>\<open>llm_vision\<close>, confidence 0.80, no error and no warnings, so the
  text stage's warning is not in the result.
\<close>

theorem C10_ProcessPDF_drops_text_warning:
  assumes "llmExtractor p = Some e"
    and "r = Some (Inr pdfData) \<or> (r = None \<and> imageData = pdfData \<and> pdfData \<noteq> [])"
    and "Invoice (fst (tryLLMTextExtraction env p e pdfData)) = None"
    and "Invoice (fst (tryLLMVisionExtraction env p e pdfData mimeType)) = Some invoice"
  shows "Warnings (fst (tryLLMTextExtraction env p e pdfData)) \<noteq> []
    \<and> fst (ProcessPDF env p r imageData mimeType)
        = fst (tryLLMVisionExtraction env p e pdfData mimeType)
    \<and> fst (ProcessPDF env p r imageData mimeType)
        = \<lparr>Invoice = Some invoice, Method = MethodLLMVision, Confidence = 80 / 100,
           Warnings = [], Error = None\<rparr>"
proof -
  obtain textResult calls1 where
    T: "tryLLMTextExtraction env p e pdfData = (textResult, calls1)"
    by (cases "tryLLMTextExtraction env p e pdfData")
  obtain visionResult calls2 where
    V: "tryLLMVisionExtraction env p e pdfData mimeType = (visionResult, calls2)"
    by (cases "tryLLMVisionExtraction env p e pdfData mimeType")
  from assms(3) T have w: "Warnings textResult \<noteq> []"
    by (cases rule: text_stage_cases [of p pdfData env e]) (auto simp: Result_zero_def)
  from assms(4) V have vr: "visionResult =
      Result_zero\<lparr>Invoice := Some invoice, Method := MethodLLMVision, Confidence := 80 / 100\<rparr>"
    using vision_stage_fst [of env p e pdfData mimeType] by (auto simp: Result_zero_def)
  have "fst (ProcessPDF env p r imageData mimeType) = visionResult"
    using assms(3) T by (simp add: ProcessPDF_stages [OF assms(1,2) T V] vr)
  with w vr show ?thesis by (simp add: T V Result_zero_def)
qed

theorem C10_ProcessPDF_drops_text_warning_witness:
  "llmExtractor pipeline_scanned = Some extractor_demo
   \<and> fst (tryLLMTextExtraction env_demo pipeline_scanned extractor_demo ''%PDF-1.4'')
       = \<lparr>Invoice = None, Method = [], Confidence = 0,
          Warnings = [''PDF contains no extractable text''],
          Error = Some ''no text extracted from PDF''\<rparr>
   \<and> Invoice (fst (tryLLMVisionExtraction env_demo pipeline_scanned extractor_demo ''%PDF-1.4''
                      ''application/pdf''))
       = Some (convertToInvoice env_demo LLMResponse_zero)
   \<and> fst (ProcessPDF env_demo pipeline_scanned (Some (Inr ''%PDF-1.4'')) [] ''application/pdf'')
       = \<lparr>Invoice = Some (convertToInvoice env_demo LLMResponse_zero),
          Method = ''llm_vision'', Confidence = 80 / 100, Warnings = [], Error = None\<rparr>"
proof -
  let ?pdf = "''%PDF-1.4''"
  have a1: "llmExtractor pipeline_scanned = Some extractor_demo"
    by (simp add: pipeline_scanned_def)
  have in1: "Some (Inr ?pdf) = Some (Inr ?pdf) \<or> (Some (Inr ?pdf) = None \<and> [] = ?pdf \<and> ?pdf \<noteq> [])"
    by simp
  have T: "fst (tryLLMTextExtraction env_demo pipeline_scanned extractor_demo ?pdf)
      = \<lparr>Invoice = None, Method = [], Confidence = 0,
          Warnings = [''PDF contains no extractable text''],
          Error = Some ''no text extracted from PDF''\<rparr>"
    by (simp add: tryLLMTextExtraction_def pipeline_scanned_def Result_zero_def)
  have V: "Invoice (fst (tryLLMVisionExtraction env_demo pipeline_scanned extractor_demo ?pdf
                  ''application/pdf''))
      = Some (convertToInvoice env_demo LLMResponse_zero)"
    by (simp add: tryLLMVisionExtraction_def ExtractFromImage_def parseResponse_demo
          extractor_demo_def pipeline_scanned_def Result_zero_def)
  have t0: "Invoice (fst (tryLLMTextExtraction env_demo pipeline_scanned extractor_demo ?pdf))
      = None"
    by (simp add: T)
  from C10_ProcessPDF_drops_text_warning [OF a1 in1 t0 V, THEN conjunct2, THEN conjunct2]
  have "fst (ProcessPDF env_demo pipeline_scanned (Some (Inr ?pdf)) [] ''application/pdf'')
       = \<lparr>Invoice = Some (convertToInvoice env_demo LLMResponse_zero),
          Method = ''llm_vision'', Confidence = 80 / 100, Warnings = [], Error = None\<rparr>"
    by (simp add: MethodLLMVision_def)
  with a1 T V show ?thesis by simp
qed

section \<open>Format detection (internal/processor/pipeline.go)\<close>

lemma contains_loop_iff:
  "contains_loop s substr i \<longleftrightarrow>
     (\<exists>j\<ge>i. j + length substr \<le> length s \<and> take (length substr) (drop j s) = substr)"
proof (induction s substr i rule: contains_loop.induct)
  case (1 s substr i)
  show ?case
  proof (cases "int i \<le> int (length s) - int (length substr)")
    case False
    then have "contains_loop s substr i = False" by (subst contains_loop.simps) simp
    moreover from False have "\<not> (\<exists>j\<ge>i. j + length substr \<le> length s
        \<and> take (length substr) (drop j s) = substr)" by auto
    ultimately show ?thesis by simp
  next
    case True
    show ?thesis
    proof (cases "take (length substr) (drop i s) = substr")
      case here: True
      with True have "contains_loop s substr i" by (subst contains_loop.simps) simp
      moreover from True here have "\<exists>j\<ge>i. j + length substr \<le> length s
        \<and> take (length substr) (drop j s) = substr" by (intro exI [of _ i]) auto
      ultimately show ?thesis by simp
    next
      case nothere: False
      with True have "contains_loop s substr i = contains_loop s substr (i + 1)"
        by (subst contains_loop.simps) simp
      also have "\<dots> \<longleftrightarrow> (\<exists>j\<ge>i + 1. j + length substr \<le> length s
        \<and> take (length substr) (drop j s) = substr)"
        using "1.IH" [OF True nothere] .
      also have "\<dots> \<longleftrightarrow> (\<exists>j\<ge>i. j + length substr \<le> length s
        \<and> take (length substr) (drop j s) = substr)"
        using nothere by (metis Suc_eq_plus1 Suc_leD Suc_leI le_neq_implies_less)
      finally show ?thesis .
    qed
  qed
qed

lemma contains_iff_sublist: "contains s substr \<longleftrightarrow> sublist substr s"
proof
  assume "contains s substr"
  then obtain j where j: "j + length substr \<le> length s" "take (length substr) (drop j s) = substr"
    by (auto simp: contains_def contains_loop_iff)
  have "s = take j s @ drop j s" by simp
  also have "drop j s = take (length substr) (drop j s) @ drop (length substr) (drop j s)"
    by (simp only: append_take_drop_id)
  finally have "s = take j s @ substr @ drop (length substr) (drop j s)"
    by (simp only: j(2))
  then show "sublist substr s" unfolding sublist_def by blast
next
  assume "sublist substr s"
  then obtain ps ss where "s = ps @ substr @ ss" by (auto simp: sublist_def)
  then have "length ps + length substr \<le> length s \<and> take (length substr) (drop (length ps) s) = substr"
    by simp
  then show "contains s substr" by (auto simp: contains_def contains_loop_iff)
qed

lemma take4_nth:
  "4 \<le> length data \<Longrightarrow>
     (data ! 0 = a \<and> data ! 1 = b \<and> data ! 2 = c \<and> data ! 3 = d) = (take 4 data = [a, b, c, d])"
  by (auto simp: list_eq_iff_nth_eq less_Suc_eq numeral_eq_Suc)

lemma take3_nth:
  "3 \<le> length data \<Longrightarrow>
     (data ! 0 = a \<and> data ! 1 = b \<and> data ! 2 = c) = (take 3 data = [a, b, c])"
  by (auto simp: list_eq_iff_nth_eq less_Suc_eq numeral_eq_Suc)

text \<open>
  C7, as stated: an input whose first character is \<^verbatim>\<open><\<close> is XML and an input
  with JPEG magic bytes is an image, whatever the length. The XML test runs only
  for inputs longer than 5 bytes and the image tests only for inputs of at least
  8 bytes, so a 4-byte and a 5-byte XML fragment and a 4-byte JPEG header are
  classified unknown.
\<close>

theorem C7_short_inputs_counterexample:
  "DetectFormat ''<a/>'' \<noteq> FormatXML
   \<and> DetectFormat ''<ab/>'' \<noteq> FormatXML
   \<and> DetectFormat [CHR 0xFF, CHR 0xD8, CHR 0xFF, CHR 0xE0] \<noteq> FormatImage"
  by code_simp

text \<open>
  C7, amended: empty input is unknown; an input longer than 5 bytes whose first
  character is \<^verbatim>\<open><\<close> or whose first 100 bytes contain \<^verbatim>\<open><?xml\<close> is XML;
  otherwise an input whose first 4 bytes are \<^verbatim>\<open>%PDF\<close> is a PDF; otherwise an
  input of at least 8 bytes that starts with the PNG, JPEG or TIFF (little- or
  big-endian) magic bytes is an image; anything else is unknown.
\<close>

theorem C7_DetectFormat_classification:
  "DetectFormat data =
     (if data = [] then FormatUnknown
      else if 5 < length data \<and> (hd data = CHR ''<'' \<or> sublist ''<?xml'' (take 100 data))
      then FormatXML
      else if take 4 data = ''%PDF'' then FormatPDF
      else if 8 \<le> length data
              \<and> (take 4 data = [CHR 0x89, CHR 0x50, CHR 0x4E, CHR 0x47]
                 \<or> take 3 data = [CHR 0xFF, CHR 0xD8, CHR 0xFF]
                 \<or> take 4 data = [CHR 0x49, CHR 0x49, CHR 0x2A, CHR 0x00]
                 \<or> take 4 data = [CHR 0x4D, CHR 0x4D, CHR 0x00, CHR 0x2A])
      then FormatImage
      else FormatUnknown)"
proof -
  have header: "take (nat (min' 100 (int (length data)))) data = take 100 data"
    by (simp add: min'_def)
  have pdf: "(4 \<le> length data \<and> take 4 data = ''%PDF'') = (take 4 data = ''%PDF'')"
  proof
    assume "take 4 data = ''%PDF''"
    then have "length (take 4 data) = 4" by simp
    then have "4 \<le> length data" by simp
    with \<open>take 4 data = ''%PDF''\<close> show "4 \<le> length data \<and> take 4 data = ''%PDF''" by simp
  qed simp
  show ?thesis
  proof (cases "8 \<le> length data")
    case True
    then have four: "4 \<le> length data" and three: "3 \<le> length data" by simp_all
    show ?thesis
      unfolding DetectFormat_def Let_def header pdf contains_iff_sublist
        take4_nth [OF four] take3_nth [OF three]
      using True by (auto simp: hd_conv_nth)
  next
    case False
    then show ?thesis
      unfolding DetectFormat_def Let_def header pdf contains_iff_sublist
      by (auto simp: hd_conv_nth)
  qed
qed

theorem C7_DetectFormat_classification_witness:
  "DetectFormat ''%PDF-1.4'' = FormatPDF
   \<and> DetectFormat ''<Invoice>'' = FormatXML
   \<and> DetectFormat [CHR 0x89, CHR 0x50, CHR 0x4E, CHR 0x47, CHR 0x0D, CHR 0x0A, CHR 0x1A, CHR 0x0A]
       = FormatImage
   \<and> DetectFormat [] = FormatUnknown
   \<and> DetectFormat ''<a/>'' = FormatUnknown"
proof -
  let ?png = "[CHR 0x89, CHR 0x50, CHR 0x4E, CHR 0x47, CHR 0x0D, CHR 0x0A, CHR 0x1A, CHR 0x0A]"
  have no_xml: "\<not> sublist ''<?xml'' (take 100 ''%PDF-1.4'')"
    "\<not> sublist ''<?xml'' (take 100 ?png)"
    by code_simp+
  have pdf: "DetectFormat ''%PDF-1.4'' = FormatPDF"
    using no_xml by (simp add: C7_DetectFormat_classification [of "''%PDF-1.4''"])
  have xml: "DetectFormat ''<Invoice>'' = FormatXML"
    by (simp add: C7_DetectFormat_classification [of "''<Invoice>''"])
  have png: "DetectFormat ?png = FormatImage"
    using no_xml by (simp add: C7_DetectFormat_classification [of ?png])
  have empty: "DetectFormat [] = FormatUnknown"
    by (simp add: C7_DetectFormat_classification [of "[]"])
  have short: "DetectFormat ''<a/>'' = FormatUnknown"
    by (simp add: C7_DetectFormat_classification [of "''<a/>''"])
  from pdf xml png empty short show ?thesis by simp
qed

section \<open>The PDF text miner's printability filter\<close>

lemma of_char_int_nonneg: "0 \<le> (of_char c :: int)"
proof -
  have "(of_char c :: int) = of_nat (of_char c)" by (simp only: of_nat_of_char)
  then show ?thesis by simp
qed

lemma isPrintableText_loop_ascii:
  assumes "\<forall>b\<in>set bs. 0 \<le> b \<and> b < 0x80"
  shows "isPrintableText_loop bs n = n + int (length (filter isPrintableRune bs))"
  using assms by (induction bs arbitrary: n) simp_all

text \<open>On a string of ASCII bytes the filter is the rule of the specification.\<close>

lemma isPrintableText_ascii:
  assumes "\<forall>c\<in>set s. (of_char c :: int) < 0x80"
  shows "isPrintableText s \<longleftrightarrow>
     s \<noteq> [] \<and> length s < 2 * length (filter (\<lambda>c. isPrintableRune (of_char c)) s)"
proof (cases "s = []")
  case True
  then show ?thesis by (simp add: isPrintableText_def)
next
  case False
  have "\<forall>b\<in>set (map of_char s). 0 \<le> b \<and> b < (0x80 :: int)"
    using assms by (simp add: of_char_int_nonneg)
  then have loop: "isPrintableText_loop (map of_char s) 0
      = int (length (filter isPrintableRune (map of_char s)))"
    by (simp add: isPrintableText_loop_ascii)
  have len: "length (filter isPrintableRune (map of_char s))
      = length (filter (\<lambda>c. isPrintableRune (of_char c)) s)"
    by (simp add: filter_map o_def)
  have pos: "(0 :: rat) < of_nat (length s)" using False by simp
  have "(1 / 2 < (of_nat k :: rat) / of_nat (length s)) = (length s < 2 * k)" for k
  proof -
    have "(1 / 2 < (of_nat k :: rat) / of_nat (length s))
        = ((of_nat (length s) :: rat) < of_nat (2 * k))"
      using pos by (simp add: field_simps)
    then show ?thesis by (simp only: of_nat_less_iff)
  qed
  with False show ?thesis by (simp add: isPrintableText_def Let_def loop len o_def)
qed

text \<open>
  C6. The claim: a candidate is kept if and only if the fraction of its
  characters that are printable exceeds 0.5, also for strings with multi-byte
  characters. The code divides the number of printable runes by the number of
  bytes. The two ASCII examples of the claim behave as it says. The three bytes
  E1 BB 87 are the one character U+1EC7, which is in the Vietnamese range, so
  the fraction of printable characters is 1; the code computes 1/3 and drops the
  string. The two bytes C3 A9 are the one character U+00E9 of the Latin range;
  the code computes 1/2 and drops the string.
\<close>

theorem C6_isPrintableText_divides_by_bytes:
  "isPrintableText ''Hello, 123''
   \<and> \<not> isPrintableText ''ab12!@#$%^''
   \<and> DecodeRune [0xE1, 0xBB, 0x87] = (0x1EC7, 3)
   \<and> isPrintableRune 0x1EC7
   \<and> \<not> isPrintableText [CHR 0xE1, CHR 0xBB, CHR 0x87]
   \<and> DecodeRune [0xC3, 0xA9] = (0xE9, 2)
   \<and> isPrintableRune 0xE9
   \<and> \<not> isPrintableText [CHR 0xC3, CHR 0xA9]"
  by code_simp

section \<open>Where the derived fields of an extracted invoice come from\<close>

lemma convertToInvoice_items_eq:
  "convertToInvoice_items resp_items items = items @ map convertToInvoice_item resp_items"
  by (induction resp_items arbitrary: items) simp_all

lemma convertToInvoice_Items:
  "Invoice.Items (convertToInvoice env resp) = map convertToInvoice_item (LLMResponse.Items resp)"
  by (simp add: convertToInvoice_def Let_def convertToInvoice_items_eq Invoice_zero_def
        split: sum.splits)

lemma convertToInvoice_item_derived:
  "LineItem.Amount (convertToInvoice_item item) = parseDecimal (LLMLineItem.Amount item)"
  "DiscountAmt (convertToInvoice_item item) = parseDecimal (DiscountAmount item)"
  "LineItem.VATAmount (convertToInvoice_item item) = parseDecimal (LLMLineItem.VATAmount item)"
  "LineItem.Total (convertToInvoice_item item) = parseDecimal (LLMLineItem.Total item)"
  by (simp_all add: convertToInvoice_item_def Let_def)

lemma parseResponse_origin:
  "parseResponse env response = Inr invoice
     \<Longrightarrow> \<exists>resp. json_Unmarshal env (ExtractJSON env response) = Inr resp
               \<and> invoice = convertToInvoice env resp"
  by (auto simp: parseResponse_def Let_def split: sum.splits)

lemma ExtractFromOCRText_origin:
  "ExtractFromOCRText env e ocrText = Inr invoice
     \<Longrightarrow> \<exists>response resp.
           client_ChatText e (textModel e) (SystemPromptInvoiceExtractor env)
             (UserPromptOCRCorrection env ocrText) = Inr response
           \<and> json_Unmarshal env (ExtractJSON env response) = Inr resp
           \<and> invoice = convertToInvoice env resp"
  by (auto simp: ExtractFromOCRText_def Let_def split: sum.splits dest: parseResponse_origin)

lemma ExtractFromImage_origin:
  "ExtractFromImage env e imageData mimeType = Inr invoice
     \<Longrightarrow> \<exists>response resp.
           client_ChatWithImage e (visionModel e) (SystemPromptInvoiceExtractor env)
             (UserPromptImageExtraction env) imageData mimeType = Inr response
           \<and> json_Unmarshal env (ExtractJSON env response) = Inr resp
           \<and> invoice = convertToInvoice env resp"
  by (auto simp: ExtractFromImage_def Let_def split: sum.splits dest: parseResponse_origin)

lemma text_stage_origin:
  assumes "Invoice (fst (tryLLMTextExtraction env p e pdfData)) = Some invoice"
  shows "\<exists>ocrText response resp.
           client_ChatText e (textModel e) (SystemPromptInvoiceExtractor env)
             (UserPromptOCRCorrection env ocrText) = Inr response
           \<and> json_Unmarshal env (ExtractJSON env response) = Inr resp
           \<and> invoice = convertToInvoice env resp"
proof -
  from assms obtain ocrText where "ExtractFromOCRText env e ocrText = Inr invoice"
    by (auto simp: tryLLMTextExtraction_def Result_zero_def split: sum.splits if_splits)
  from ExtractFromOCRText_origin [OF this] show ?thesis by blast
qed

lemma vision_stage_origin:
  assumes "Invoice (fst (tryLLMVisionExtraction env p e data mimeType)) = Some invoice"
  shows "\<exists>img mime response resp.
           client_ChatWithImage e (visionModel e) (SystemPromptInvoiceExtractor env)
             (UserPromptImageExtraction env) img mime = Inr response
           \<and> json_Unmarshal env (ExtractJSON env response) = Inr resp
           \<and> invoice = convertToInvoice env resp"
proof -
  from assms obtain img mime where "ExtractFromImage env e img mime = Inr invoice"
    by (auto simp: tryLLMVisionExtraction_def Let_def Result_zero_def
          split: sum.splits if_splits prod.splits)
  from ExtractFromImage_origin [OF this] show ?thesis by blast
qed

lemma ProcessPDF_origin:
  assumes "Invoice (fst (ProcessPDF env p r imageData mimeType)) = Some invoice"
  shows "\<exists>e response resp.
           llmExtractor p = Some e
           \<and> ((\<exists>ocrText. client_ChatText e (textModel e) (SystemPromptInvoiceExtractor env)
                            (UserPromptOCRCorrection env ocrText) = Inr response)
              \<or> (\<exists>img mime. client_ChatWithImage e (visionModel e)
                              (SystemPromptInvoiceExtractor env)
                              (UserPromptImageExtraction env) img mime = Inr response))
           \<and> json_Unmarshal env (ExtractJSON env response) = Inr resp
           \<and> invoice = convertToInvoice env resp"
proof -
  from assms obtain e pdfData where e: "llmExtractor p = Some e"
    and input: "r = Some (Inr pdfData) \<or> (r = None \<and> imageData = pdfData \<and> pdfData \<noteq> [])"
    by (auto simp: ProcessPDF_def Result_zero_def split: option.splits sum.splits if_splits)
  obtain textResult calls1 where
    T: "tryLLMTextExtraction env p e pdfData = (textResult, calls1)"
    by (cases "tryLLMTextExtraction env p e pdfData")
  obtain visionResult calls2 where
    V: "tryLLMVisionExtraction env p e pdfData mimeType = (visionResult, calls2)"
    by (cases "tryLLMVisionExtraction env p e pdfData mimeType")
  from assms have "Invoice textResult = Some invoice \<or> Invoice visionResult = Some invoice"
    by (auto simp: ProcessPDF_stages [OF e input T V] Result_zero_def split: if_splits)
  then show ?thesis
  proof
    assume "Invoice textResult = Some invoice"
    then have "Invoice (fst (tryLLMTextExtraction env p e pdfData)) = Some invoice"
      by (simp add: T)
    from text_stage_origin [OF this] e show ?thesis by blast
  next
    assume "Invoice visionResult = Some invoice"
    then have "Invoice (fst (tryLLMVisionExtraction env p e pdfData mimeType)) = Some invoice"
      by (simp add: V)
    from vision_stage_origin [OF this] e show ?thesis by blast
  qed
qed

lemma ProcessImage_origin:
  assumes "Invoice (fst (ProcessImage env p imageData mimeType)) = Some invoice"
  shows "\<exists>e response resp.
           llmExtractor p = Some e
           \<and> ((\<exists>ocrText. client_ChatText e (textModel e) (SystemPromptInvoiceExtractor env)
                            (UserPromptOCRCorrection env ocrText) = Inr response)
              \<or> (\<exists>img mime. client_ChatWithImage e (visionModel e)
                              (SystemPromptInvoiceExtractor env)
                              (UserPromptImageExtraction env) img mime = Inr response))
           \<and> json_Unmarshal env (ExtractJSON env response) = Inr resp
           \<and> invoice = convertToInvoice env resp"
proof -
  from assms obtain e where e: "llmExtractor p = Some e"
    and "Invoice (fst (tryLLMVisionExtraction env p e imageData mimeType)) = Some invoice"
    by (auto simp: ProcessImage_def Result_zero_def split: option.splits)
  from vision_stage_origin [OF this(2)] e show ?thesis by blast
qed

text \<open>
  C3, as stated: every invoice produced by an extraction path has line items
  whose derived fields follow from quantity, unit price, discount percent and
  VAT rate, and only the calculator sets them. A model response that states
  quantity 2, unit price 100, amount 5 and total 5 is returned by the text stage
  with exactly these values: the normalizer set amount and total, and the amount
  is not \<open>2 \<times> 100\<close>.
\<close>

theorem C3_extracted_item_inconsistent_counterexample:
  "Invoice (fst (ProcessPDF env_demo pipeline_inconsistent (Some (Inr ''%PDF-1.4'')) []
                   ''application/pdf''))
     = Some (convertToInvoice env_demo inconsistent_response)
   \<and> map LineItem.Quantity (Invoice.Items (convertToInvoice env_demo inconsistent_response)) = [2]
   \<and> map LineItem.UnitPrice (Invoice.Items (convertToInvoice env_demo inconsistent_response))
       = [100]
   \<and> map LineItem.Amount (Invoice.Items (convertToInvoice env_demo inconsistent_response)) = [5]
   \<and> map LineItem.Total (Invoice.Items (convertToInvoice env_demo inconsistent_response)) = [5]
   \<and> map LineItem.Amount (Invoice.Items (convertToInvoice env_demo inconsistent_response))
       \<noteq> map (\<lambda>i. Decimal_Mul (LineItem.Quantity i) (LineItem.UnitPrice i))
            (Invoice.Items (convertToInvoice env_demo inconsistent_response))"
proof -
  have "fst (ProcessPDF env_demo pipeline_inconsistent (Some (Inr ''%PDF-1.4'')) []
               ''application/pdf'')
      = Result_zero\<lparr>Invoice := Some (convertToInvoice env_demo inconsistent_response),
                      Method := MethodLLMText, Confidence := 85 / 100\<rparr>"
    by (simp add: ProcessPDF_def pipeline_inconsistent_def tryLLMTextExtraction_def
          ExtractFromOCRText_def extractor_inconsistent_def parseResponse_demo
          Result_zero_def)
  then have "Invoice (fst (ProcessPDF env_demo pipeline_inconsistent (Some (Inr ''%PDF-1.4'')) []
                   ''application/pdf''))
     = Some (convertToInvoice env_demo inconsistent_response)"
    by (simp add: Result_zero_def)
  moreover have
    "map LineItem.Quantity (Invoice.Items (convertToInvoice env_demo inconsistent_response)) = [2]
     \<and> map LineItem.UnitPrice (Invoice.Items (convertToInvoice env_demo inconsistent_response))
         = [100]
     \<and> map LineItem.Amount (Invoice.Items (convertToInvoice env_demo inconsistent_response)) = [5]
     \<and> map LineItem.Total (Invoice.Items (convertToInvoice env_demo inconsistent_response)) = [5]
     \<and> map LineItem.Amount (Invoice.Items (convertToInvoice env_demo inconsistent_response))
       \<noteq> map (\<lambda>i. Decimal_Mul (LineItem.Quantity i) (LineItem.UnitPrice i))
            (Invoice.Items (convertToInvoice env_demo inconsistent_response))"
    by code_simp
  ultimately show ?thesis by (rule conjI)
qed

text \<open>
  C3, amended: every invoice that \<^verbatim>\<open>ProcessPDF\<close> or \<^verbatim>\<open>ProcessImage\<close> returns
  (text stage or vision stage) is the normalizer's conversion of the response
  that \<^verbatim>\<open>json.Unmarshal\<close> decoded from the reply of the configured extractor's
  model client (to the text prompt or to the image prompt), returned as
  converted; the conversion makes one line item per item of the response, and
  it sets that line item's amount, discount amount, VAT amount and total itself,
  to the locale-parsed values of the response's \<^verbatim>\<open>amount\<close>,
  \<^verbatim>\<open>discount_amount\<close>, \<^verbatim>\<open>vat_amount\<close> and \<^verbatim>\<open>total\<close>.
\<close>

theorem C3_normalizer_sets_derived_fields:
  "(Invoice (fst (ProcessPDF env p r imageData mimeType)) = Some invoice
      \<or> Invoice (fst (ProcessImage env p imageData mimeType)) = Some invoice
    \<longrightarrow> (\<exists>e response decoded.
           llmExtractor p = Some e
           \<and> ((\<exists>ocrText. client_ChatText e (textModel e) (SystemPromptInvoiceExtractor env)
                            (UserPromptOCRCorrection env ocrText) = Inr response)
              \<or> (\<exists>img mime. client_ChatWithImage e (visionModel e)
                              (SystemPromptInvoiceExtractor env)
                              (UserPromptImageExtraction env) img mime = Inr response))
           \<and> json_Unmarshal env (ExtractJSON env response) = Inr decoded
           \<and> invoice = convertToInvoice env decoded))
   \<and> Invoice.Items (convertToInvoice env resp)
       = map convertToInvoice_item (LLMResponse.Items resp)
   \<and> LineItem.Amount (convertToInvoice_item item) = parseDecimal (LLMLineItem.Amount item)
   \<and> DiscountAmt (convertToInvoice_item item) = parseDecimal (DiscountAmount item)
   \<and> LineItem.VATAmount (convertToInvoice_item item) = parseDecimal (LLMLineItem.VATAmount item)
   \<and> LineItem.Total (convertToInvoice_item item) = parseDecimal (LLMLineItem.Total item)"
proof -
  have "\<exists>e response decoded.
           llmExtractor p = Some e
           \<and> ((\<exists>ocrText. client_ChatText e (textModel e) (SystemPromptInvoiceExtractor env)
                            (UserPromptOCRCorrection env ocrText) = Inr response)
              \<or> (\<exists>img mime. client_ChatWithImage e (visionModel e)
                              (SystemPromptInvoiceExtractor env)
                              (UserPromptImageExtraction env) img mime = Inr response))
           \<and> json_Unmarshal env (ExtractJSON env response) = Inr decoded
           \<and> invoice = convertToInvoice env decoded"
    if "Invoice (fst (ProcessPDF env p r imageData mimeType)) = Some invoice
      \<or> Invoice (fst (ProcessImage env p imageData mimeType)) = Some invoice"
    using that ProcessPDF_origin [of env p r imageData mimeType invoice]
      ProcessImage_origin [of env p imageData mimeType invoice] by blast
  then show ?thesis
    by (simp add: convertToInvoice_Items convertToInvoice_item_derived)
qed

theorem C3_normalizer_sets_derived_fields_witness:
  "Invoice (fst (ProcessPDF env_demo pipeline_inconsistent (Some (Inr ''%PDF-1.4'')) []
                   ''application/pdf''))
     = Some (convertToInvoice env_demo inconsistent_response)
   \<and> (\<exists>e response decoded.
         llmExtractor pipeline_inconsistent = Some e
         \<and> ((\<exists>ocrText. client_ChatText e (textModel e) (SystemPromptInvoiceExtractor env_demo)
                          (UserPromptOCRCorrection env_demo ocrText) = Inr response)
            \<or> (\<exists>img mime. client_ChatWithImage e (visionModel e)
                            (SystemPromptInvoiceExtractor env_demo)
                            (UserPromptImageExtraction env_demo) img mime = Inr response))
         \<and> json_Unmarshal env_demo (ExtractJSON env_demo response) = Inr decoded
         \<and> convertToInvoice env_demo inconsistent_response = convertToInvoice env_demo decoded)
   \<and> Invoice.Items (convertToInvoice env_demo inconsistent_response)
       = map convertToInvoice_item (LLMResponse.Items inconsistent_response)
   \<and> LineItem.Amount (convertToInvoice_item (hd (LLMResponse.Items inconsistent_response)))
       = parseDecimal ''5''"
proof -
  have "fst (ProcessPDF env_demo pipeline_inconsistent (Some (Inr ''%PDF-1.4'')) []
               ''application/pdf'')
      = Result_zero\<lparr>Invoice := Some (convertToInvoice env_demo inconsistent_response),
                      Method := MethodLLMText, Confidence := 85 / 100\<rparr>"
    by (simp add: ProcessPDF_def pipeline_inconsistent_def tryLLMTextExtraction_def
          ExtractFromOCRText_def extractor_inconsistent_def parseResponse_demo
          Result_zero_def)
  then have h: "Invoice (fst (ProcessPDF env_demo pipeline_inconsistent (Some (Inr ''%PDF-1.4''))
                   [] ''application/pdf''))
     = Some (convertToInvoice env_demo inconsistent_response)"
    by (simp add: Result_zero_def)
  have five: "LLMLineItem.Amount (hd (LLMResponse.Items inconsistent_response)) = ''5''"
    by (simp add: inconsistent_response_def LLMResponse_zero_def LLMLineItem_zero_def)
  from C3_normalizer_sets_derived_fields
    [of env_demo pipeline_inconsistent "Some (Inr ''%PDF-1.4'')" "[]" "''application/pdf''"
        "convertToInvoice env_demo inconsistent_response" inconsistent_response
        "hd (LLMResponse.Items inconsistent_response)"] h five
  show ?thesis by simp
qed

section \<open>The round trip through the normalizer\<close>

subsection \<open>Vietnamese numeric formatting\<close>





















subsection \<open>The Vietnamese renderings that are JSON numbers\<close>















subsection \<open>Rendering and reading back\<close>


















lemma parseDecimal_examples:
  "parseDecimal ''1234.56'' = 123456"
  "parseDecimal ''125.000'' = 125000"
  by (simp_all add: parseDecimal_def Decimal_NewFromString_def strconv_ParseInt_def
        digitVal_def in_int32_def Let_def)




end
